theory Spec2Isabelle
  imports Complex_Main
begin

section \<open>Values of the program\<close>

text \<open>
  The adapter handles parsed JSON documents (the results of \<open>response.json()\<close>).
  An object is an association list in document order, looked up with \<open>map_of\<close>.
  Python's \<open>None\<close> is \<open>JNull\<close>. A Python \<open>str\<close> is a \<open>string\<close> with one
  \<open>char\<close> per code point, which covers the code points below 256.
\<close>

datatype json =
    JNull
  | JBool bool
  | JInt int
  | JFloat rat
  | JString string
  | JArray "json list"
  | JObject "(string \<times> json) list"

text \<open>
  The exceptions of the program: those of the interpreter, the \<open>ValueError\<close> that
  \<open>read_resource\<close> raises with its message, the failure that \<open>raise_for_status\<close>
  raises, and the exception that \<open>response.json()\<close> raises on a body that is not JSON.
\<close>

datatype error =
    KeyError
  | IndexError
  | TypeError
  | AttributeError
  | ValueError string
  | HTTPStatusError
  | JSONDecodeError

text \<open>Sequencing of computations that may raise: the first exception wins.\<close>

definition bindE :: "error + 'a \<Rightarrow> ('a \<Rightarrow> error + 'b) \<Rightarrow> error + 'b" where
  "bindE m f = (case m of Inl e \<Rightarrow> Inl e | Inr x \<Rightarrow> f x)"

text \<open>Truth value of a Python object, as tested by \<open>if x\<close> and \<open>not x\<close>.\<close>

fun truthy :: "json \<Rightarrow> bool" where
  "truthy JNull = False"
| "truthy (JBool b) = b"
| "truthy (JInt n) = (n \<noteq> 0)"
| "truthy (JFloat r) = (r \<noteq> 0)"
| "truthy (JString s) = (s \<noteq> [])"
| "truthy (JArray xs) = (xs \<noteq> [])"
| "truthy (JObject kvs) = (kvs \<noteq> [])"

text \<open>An argument annotated \<open>str\<close> with default \<open>None\<close>.\<close>

fun truthy_str :: "string option \<Rightarrow> bool" where
  "truthy_str None = False"
| "truthy_str (Some s) = (s \<noteq> [])"

text \<open>\<open>d.get(k, default)\<close>: only a dict has the method.\<close>

fun py_get :: "json \<Rightarrow> string \<Rightarrow> json \<Rightarrow> error + json" where
  "py_get (JObject kvs) k d = Inr (case map_of kvs k of Some v \<Rightarrow> v | None \<Rightarrow> d)"
| "py_get _ k d = Inl AttributeError"

text \<open>\<open>d["k"]\<close> with a string key.\<close>

fun py_getitem :: "json \<Rightarrow> string \<Rightarrow> error + json" where
  "py_getitem (JObject kvs) k = (case map_of kvs k of Some v \<Rightarrow> Inr v | None \<Rightarrow> Inl KeyError)"
| "py_getitem _ k = Inl TypeError"

text \<open>
  \<open>x[0]\<close>: the first element of a list, the first character of a string. The keys of a
  parsed JSON object are strings, so the integer key is never found in a dict.
\<close>

fun py_first :: "json \<Rightarrow> error + json" where
  "py_first (JArray []) = Inl IndexError"
| "py_first (JArray (x # xs)) = Inr x"
| "py_first (JString []) = Inl IndexError"
| "py_first (JString (c # cs)) = Inr (JString [c])"
| "py_first (JObject kvs) = Inl KeyError"
| "py_first _ = Inl TypeError"

text \<open>\<open>for x in v\<close>: a dict iterates over its keys, a string over its characters.\<close>

fun py_iter :: "json \<Rightarrow> error + json list" where
  "py_iter (JArray xs) = Inr xs"
| "py_iter (JObject kvs) = Inr (map (\<lambda>kv. JString (fst kv)) kvs)"
| "py_iter (JString s) = Inr (map (\<lambda>c. JString [c]) s)"
| "py_iter _ = Inl TypeError"

text \<open>
  \<open>str.lower()\<close> on code points below 256: the ASCII capitals and the capitals of the
  Latin-1 supplement (0xC0 to 0xDE without the multiplication sign 0xD7) move up by 32.
\<close>

definition lower_char :: "char \<Rightarrow> char" where
  "lower_char c =
     (let n = of_char c :: nat
      in if (65 \<le> n \<and> n \<le> 90) \<or> (192 \<le> n \<and> n \<le> 222 \<and> n \<noteq> 215)
         then char_of (n + 32) else c)"

definition lower :: "string \<Rightarrow> string" where
  "lower s = map lower_char s"

text \<open>\<open>v.lower()\<close> on an object of any type.\<close>

fun py_lower :: "json \<Rightarrow> error + string" where
  "py_lower (JString s) = Inr (lower s)"
| "py_lower _ = Inl AttributeError"

text \<open>\<open>sep.join(xs)\<close>.\<close>

fun join :: "string \<Rightarrow> string list \<Rightarrow> string" where
  "join sep [] = []"
| "join sep [x] = x"
| "join sep (x # y # ys) = x @ sep @ join sep (y # ys)"

section \<open>Query construction (\<open>JiraManager.search_issues\<close>, lines 100 to 110)\<close>

definition apostrophe :: char where
  "apostrophe = CHR 0x27"

text \<open>The list \<open>conditions\<close> after lines 101 to 108.\<close>

definition jql_conditions :: "string option \<Rightarrow> string option \<Rightarrow> string list" where
  "jql_conditions assignee project =
     (let conditions = [];
          conditions =
            (case assignee of
               None \<Rightarrow> conditions
             | Some a \<Rightarrow>
                 if a \<noteq> [] then
                   (if lower a = ''me''
                    then conditions @ [''assignee = currentUser()'']
                    else conditions @ [''assignee = '' @ [apostrophe] @ a @ [apostrophe]])
                 else conditions);
          conditions =
            (case project of
               None \<Rightarrow> conditions
             | Some p \<Rightarrow>
                 if p \<noteq> [] then conditions @ [''project = '' @ [apostrophe] @ p @ [apostrophe]]
                 else conditions)
      in conditions)"

text \<open>The value of \<open>jql\<close> after line 110.\<close>

definition build_jql :: "string option \<Rightarrow> string option \<Rightarrow> string option \<Rightarrow> string" where
  "build_jql jql assignee project =
     (if \<not> truthy_str jql then
        (let conditions = jql_conditions assignee project
         in if conditions \<noteq> [] then join '' AND '' conditions else ''order by updated DESC'')
      else the jql)"

section \<open>Field extraction\<close>

text \<open>
  The construction of a \<open>JiraIssue\<close> from one raw issue is written twice in the
  source: lines 129 to 140 of \<open>search_issues\<close> and, character for character the same,
  lines 154 to 166 of \<open>get_issue\<close>. Each function below is one keyword argument of
  that constructor call, as a function of \<open>fields\<close>.
\<close>

definition sin_titulo :: string where
  "sin_titulo = ''Sin t'' @ [CHR 0xED] @ ''tulo''"

definition issue_summary :: "json \<Rightarrow> error + json" where
  "issue_summary fields = py_get fields ''summary'' (JString sin_titulo)"

definition issue_status :: "json \<Rightarrow> error + json" where
  "issue_status fields =
     bindE (py_get fields ''status'' (JObject [])) (\<lambda>s.
       py_get s ''name'' (JString ''Desconocido''))"

definition issue_assignee :: "json \<Rightarrow> error + json" where
  "issue_assignee fields =
     bindE (py_get fields ''assignee'' JNull) (\<lambda>c.
       if truthy c then
         bindE (py_get fields ''assignee'' (JObject [])) (\<lambda>a.
           py_get a ''displayName'' (JString ''Sin asignar''))
       else Inr (JString ''Sin asignar''))"

definition issue_priority :: "json \<Rightarrow> error + json" where
  "issue_priority fields =
     bindE (py_get fields ''priority'' JNull) (\<lambda>c.
       if truthy c then
         bindE (py_get fields ''priority'' (JObject [])) (\<lambda>p.
           py_get p ''name'' (JString ''Sin prioridad''))
       else Inr (JString ''Sin prioridad''))"

definition issue_issuetype :: "json \<Rightarrow> error + json" where
  "issue_issuetype fields =
     bindE (py_get fields ''issuetype'' (JObject [])) (\<lambda>t.
       py_get t ''name'' (JString ''Desconocido''))"

definition issue_description :: "json \<Rightarrow> error + json" where
  "issue_description fields =
     bindE (py_get fields ''description'' JNull) (\<lambda>c.
       if truthy c then
         bindE (py_get fields ''description'' (JObject [])) (\<lambda>doc.
         bindE (py_get doc ''content'' (JArray [JObject []])) (\<lambda>blocks.
         bindE (py_first blocks) (\<lambda>block.
         bindE (py_get block ''content'' (JArray [JObject []])) (\<lambda>inner.
         bindE (py_first inner) (\<lambda>run.
           py_get run ''text'' (JString ''''))))))
       else Inr (JString ''''))"

section \<open>Canonical models and response normalisation\<close>

text \<open>
  The dataclasses \<open>JiraProject\<close> and \<open>JiraIssue\<close>. Their fields are filled from the
  backend's JSON without any check, so a field holds whatever value the document has there.
\<close>

record JiraProject =
  key :: json
  name :: json
  project_type :: json
  lead :: json

record JiraIssue =
  key :: json
  summary :: json
  status :: json
  assignee :: json
  priority :: json
  issue_type :: json
  created :: json
  updated :: json
  description :: json

text \<open>The constructor call of lines 129 to 140 and of lines 154 to 166.\<close>

definition normalize_issue :: "json \<Rightarrow> error + JiraIssue" where
  "normalize_issue issue =
     bindE (py_getitem issue ''fields'') (\<lambda>fields.
     bindE (py_getitem issue ''key'') (\<lambda>k.
     bindE (issue_summary fields) (\<lambda>sm.
     bindE (issue_status fields) (\<lambda>st.
     bindE (issue_assignee fields) (\<lambda>a.
     bindE (issue_priority fields) (\<lambda>p.
     bindE (issue_issuetype fields) (\<lambda>t.
     bindE (py_get fields ''created'' (JString '''')) (\<lambda>c.
     bindE (py_get fields ''updated'' (JString '''')) (\<lambda>u.
     bindE (issue_description fields) (\<lambda>d.
       Inr \<lparr>JiraIssue.key = k, summary = sm, status = st, assignee = a, priority = p,
            issue_type = t, created = c, updated = u, description = d\<rparr>))))))))))"

text \<open>The element of the list comprehension of \<open>get_projects\<close> (lines 87 to 92).\<close>

definition normalize_project :: "json \<Rightarrow> error + JiraProject" where
  "normalize_project project =
     bindE (py_getitem project ''key'') (\<lambda>k.
     bindE (py_getitem project ''name'') (\<lambda>n.
     bindE (py_get project ''projectTypeKey'' (JString ''unknown'')) (\<lambda>t.
     bindE (bindE (py_get project ''lead'' (JObject [])) (\<lambda>l.
              py_get l ''displayName'' (JString ''Sin asignar''))) (\<lambda>l.
       Inr \<lparr>JiraProject.key = k, name = n, project_type = t, lead = l\<rparr>))))"

text \<open>The loop of lines 127 to 140: \<open>issues\<close> grows by one record per raw issue.\<close>

fun collect_issues :: "JiraIssue list \<Rightarrow> json list \<Rightarrow> error + JiraIssue list" where
  "collect_issues issues [] = Inr issues"
| "collect_issues issues (issue # rest) =
     bindE (normalize_issue issue) (\<lambda>i. collect_issues (issues @ [i]) rest)"

fun collect_projects :: "JiraProject list \<Rightarrow> json list \<Rightarrow> error + JiraProject list" where
  "collect_projects projects [] = Inr projects"
| "collect_projects projects (project # rest) =
     bindE (normalize_project project) (\<lambda>p. collect_projects (projects @ [p]) rest)"

section \<open>Backend client (\<open>JiraManager\<close>)\<close>

text \<open>
  The HTTP requests a method issues are its effect. A request is its verb, its URL and
  its query parameters or JSON body; the headers are the same on every request. The
  backend is the environment: it answers a request either with a non-success status, on
  which \<open>raise_for_status\<close> raises, or with a success status and a body. The body is
  \<open>Some\<close> document when it is JSON and \<open>None\<close> when it is not (an empty body, a
  page of HTML): then \<open>response.json()\<close> raises its decoding exception, where the
  method calls it. A method returns what it returns or raises, together with the
  requests it has sent, in order.
\<close>

datatype request =
    GET string "(string \<times> json) list"
  | POST string json
  | PUT string json

datatype response = Failure | Success "json option"

text \<open>\<open>response.json()\<close> after \<open>raise_for_status\<close> has passed.\<close>

definition response_json :: "json option \<Rightarrow> error + json" where
  "response_json body = (case body of None \<Rightarrow> Inl JSONDecodeError | Some document \<Rightarrow> Inr document)"

text \<open>An argument that holds \<open>None\<close> or a value, as it goes into a request.\<close>

definition int_or_None :: "int option \<Rightarrow> json" where
  "int_or_None v = (case v of None \<Rightarrow> JNull | Some n \<Rightarrow> JInt n)"

definition str_or_None :: "string option \<Rightarrow> json" where
  "str_or_None v = (case v of None \<Rightarrow> JNull | Some s \<Rightarrow> JString s)"

type_synonym backend = "request \<Rightarrow> response"

type_synonym 'a outcome = "(error + 'a) \<times> request list"

record JiraManager =
  jira_url :: string
  email :: string
  api_token :: string

definition issue_fields :: string where
  "issue_fields = ''summary,status,assignee,priority,issuetype,created,updated,description''"

definition get_myself :: "JiraManager \<Rightarrow> backend \<Rightarrow> json outcome" where
  "get_myself self backend =
     (let req = GET (jira_url self @ ''/rest/api/3/myself'') []
      in case backend req of
           Failure \<Rightarrow> (Inl HTTPStatusError, [req])
         | Success body \<Rightarrow> (response_json body, [req]))"

definition get_projects :: "JiraManager \<Rightarrow> backend \<Rightarrow> (JiraProject list) outcome" where
  "get_projects self backend =
     (let req = GET (jira_url self @ ''/rest/api/3/project'') []
      in case backend req of
           Failure \<Rightarrow> (Inl HTTPStatusError, [req])
         | Success body \<Rightarrow>
             (bindE (response_json body) (\<lambda>projects_data.
              bindE (py_iter projects_data) (\<lambda>ps. collect_projects [] ps)), [req]))"

definition search_issues ::
  "JiraManager \<Rightarrow> backend \<Rightarrow> string option \<Rightarrow> string option \<Rightarrow> string option
     \<Rightarrow> int option \<Rightarrow> (JiraIssue list) outcome" where
  "search_issues self backend jql = (\<lambda>assignee project max_results.
     let jql = build_jql jql assignee project;
         params = [(''jql'', JString jql), (''maxResults'', int_or_None max_results),
                   (''fields'', JString issue_fields)];
         req = GET (jira_url self @ ''/rest/api/3/search'') params
     in case backend req of
          Failure \<Rightarrow> (Inl HTTPStatusError, [req])
        | Success body \<Rightarrow>
            (bindE (response_json body) (\<lambda>data.
             bindE (py_get data ''issues'' (JArray [])) (\<lambda>raw.
             bindE (py_iter raw) (\<lambda>items. collect_issues [] items))), [req]))"

definition get_issue :: "JiraManager \<Rightarrow> backend \<Rightarrow> string \<Rightarrow> (JiraIssue option) outcome" where
  "get_issue self backend issue_key =
     (let req = GET (jira_url self @ ''/rest/api/3/issue/'' @ issue_key)
                    [(''fields'', JString issue_fields)]
      in case backend req of
           Failure \<Rightarrow> (Inl HTTPStatusError, [req])
         | Success body \<Rightarrow>
             (bindE (response_json body) (\<lambda>issue.
              bindE (normalize_issue issue) (\<lambda>i. Inr (Some i))), [req]))"

definition create_issue ::
  "JiraManager \<Rightarrow> backend \<Rightarrow> string \<Rightarrow> string \<Rightarrow> string \<Rightarrow> string option
     \<Rightarrow> json outcome" where
  "create_issue self backend project_key = (\<lambda>summary description issue_type.
     let issue_data =
           JObject [(''fields'', JObject
             [(''project'', JObject [(''key'', JString project_key)]),
              (''summary'', JString summary),
              (''description'', JObject
                 [(''type'', JString ''doc''),
                  (''version'', JInt 1),
                  (''content'', JArray
                     [JObject [(''type'', JString ''paragraph''),
                               (''content'', JArray
                                  [JObject [(''type'', JString ''text''),
                                            (''text'', JString description)]])]])]),
              (''issuetype'', JObject [(''name'', str_or_None issue_type)])])];
         req = POST (jira_url self @ ''/rest/api/3/issue'') issue_data
     in case backend req of
          Failure \<Rightarrow> (Inl HTTPStatusError, [req])
        | Success body \<Rightarrow> (response_json body, [req]))"

text \<open>
  The loop of lines 214 to 218: the \<open>id\<close> of the first transition whose lower-cased
  name is the lower-cased requested name, \<open>None\<close> when the loop ends without one.
\<close>

fun find_transition :: "json list \<Rightarrow> string \<Rightarrow> error + json" where
  "find_transition [] transition_name = Inr JNull"
| "find_transition (transition # rest) transition_name =
     bindE (py_getitem transition ''name'') (\<lambda>n.
     bindE (py_lower n) (\<lambda>l.
       if l = lower transition_name then py_getitem transition ''id''
       else find_transition rest transition_name))"

definition transition_issue :: "JiraManager \<Rightarrow> backend \<Rightarrow> string \<Rightarrow> string \<Rightarrow> bool outcome" where
  "transition_issue self backend issue_key transition_name =
     (let url = jira_url self @ ''/rest/api/3/issue/'' @ issue_key @ ''/transitions'';
          req = GET url []
      in case backend req of
           Failure \<Rightarrow> (Inl HTTPStatusError, [req])
         | Success body \<Rightarrow>
             (case bindE (response_json body) (\<lambda>document.
                   bindE (py_get document ''transitions'' (JArray [])) (\<lambda>transitions.
                   bindE (py_iter transitions) (\<lambda>items.
                     find_transition items transition_name))) of
                Inl e \<Rightarrow> (Inl e, [req])
              | Inr transition_id \<Rightarrow>
                  if \<not> truthy transition_id then (Inr False, [req])
                  else
                    (let transition_data =
                           JObject [(''transition'', JObject [(''id'', transition_id)])];
                         req2 = POST url transition_data
                     in case backend req2 of
                          Failure \<Rightarrow> (Inl HTTPStatusError, [req, req2])
                        | Success _ \<Rightarrow> (Inr True, [req, req2]))))"

definition assign_issue :: "JiraManager \<Rightarrow> backend \<Rightarrow> string \<Rightarrow> string \<Rightarrow> bool outcome" where
  "assign_issue self backend issue_key = (\<lambda>assignee.
     let assign_data = JObject [(''accountId'', if assignee \<noteq> ''me'' then JString assignee else JNull)];
         req = PUT (jira_url self @ ''/rest/api/3/issue/'' @ issue_key @ ''/assignee'') assign_data
     in case backend req of
          Failure \<Rightarrow> (Inl HTTPStatusError, [req])
        | Success _ \<Rightarrow> (Inr True, [req]))"

section \<open>Protocol dispatcher: resources\<close>

text \<open>
  \<open>read_resource\<close> returns the string \<open>json.dumps(payload, indent=2, ensure_ascii=b)\<close>,
  kept here as the payload and the flag \<open>b\<close>. The text \<open>str(e)\<close> of an exception is
  the interpreter's and the HTTP library's, so it is a parameter \<open>exc_str\<close>.
\<close>

datatype resource_text = Json_dumps bool json

definition my_issue_data :: "JiraIssue \<Rightarrow> json" where
  "my_issue_data issue =
     JObject [(''key'', JiraIssue.key issue), (''summary'', summary issue),
              (''status'', status issue), (''priority'', priority issue),
              (''type'', issue_type issue), (''updated'', updated issue)]"

definition project_data :: "JiraProject \<Rightarrow> json" where
  "project_data project =
     JObject [(''key'', JiraProject.key project), (''name'', name project),
              (''type'', project_type project), (''lead'', lead project)]"

definition recent_issue_data :: "JiraIssue \<Rightarrow> json" where
  "recent_issue_data issue =
     JObject [(''key'', JiraIssue.key issue), (''summary'', summary issue),
              (''status'', status issue), (''assignee'', assignee issue),
              (''updated'', updated issue)]"

text \<open>The body of the \<open>try\<close> statement (lines 293 to 336).\<close>

definition read_resource_try :: "JiraManager \<Rightarrow> backend \<Rightarrow> string \<Rightarrow> resource_text outcome" where
  "read_resource_try jira_manager backend uri =
     (if uri = ''jira://my-issues'' then
        (case search_issues jira_manager backend None (Some ''me'') None (Some 20) of
           (Inl e, sent) \<Rightarrow> (Inl e, sent)
         | (Inr issues, sent) \<Rightarrow>
             (Inr (Json_dumps False (JArray (map my_issue_data issues))), sent))
      else if uri = ''jira://projects'' then
        (case get_projects jira_manager backend of
           (Inl e, sent) \<Rightarrow> (Inl e, sent)
         | (Inr projects, sent) \<Rightarrow>
             (Inr (Json_dumps False (JArray (map project_data projects))), sent))
      else if uri = ''jira://recent-issues'' then
        (case search_issues jira_manager backend (Some ''order by updated DESC'') None None (Some 20) of
           (Inl e, sent) \<Rightarrow> (Inl e, sent)
         | (Inr issues, sent) \<Rightarrow>
             (Inr (Json_dumps False (JArray (map recent_issue_data issues))), sent))
      else (Inl (ValueError (''Recurso no encontrado: '' @ uri)), []))"

text \<open>The whole function: \<open>except Exception\<close> turns every exception into a payload.\<close>

definition read_resource ::
  "(error \<Rightarrow> string) \<Rightarrow> JiraManager \<Rightarrow> backend \<Rightarrow> string \<Rightarrow> resource_text outcome" where
  "read_resource exc_str jira_manager backend uri =
     (case read_resource_try jira_manager backend uri of
        (Inl e, sent) \<Rightarrow> (Inr (Json_dumps True (JObject [(''error'', JString (exc_str e))])), sent)
      | (Inr text, sent) \<Rightarrow> (Inr text, sent))"

section \<open>Protocol dispatcher: tools\<close>

text \<open>
  The \<open>arguments\<close> of a tool call, with the properties and the types that the input
  schemas of \<open>list_tools\<close> declare. A property that the code reads with
  \<open>arguments.get(p)\<close> is a field that is \<open>None\<close> when the key is absent or null: the
  code cannot tell the two apart. The two properties that it reads with a default,
  \<open>arguments.get(p, default)\<close>, tell them apart: an absent key gives the default and
  a null gives \<open>None\<close>.
\<close>

datatype 'a argument = Absent | Null | Given 'a

definition get_default :: "'a argument \<Rightarrow> 'a \<Rightarrow> 'a option" where
  "get_default v d = (case v of Absent \<Rightarrow> Some d | Null \<Rightarrow> None | Given x \<Rightarrow> Some x)"

record tool_arguments =
  arg_jql :: "string option"
  arg_assignee :: "string option"
  arg_project :: "string option"
  arg_max_results :: "int argument"
  arg_issue_key :: "string option"
  arg_project_key :: "string option"
  arg_summary :: "string option"
  arg_description :: "string option"
  arg_issue_type :: "string argument"
  arg_transition :: "string option"
  arg_status :: "string option"

text \<open>
  The texts a tool returns are string templates filled with values. A text is kept as
  its template (one constructor for each) and the values that fill it, in the order of
  the source.
\<close>

datatype issue_line = Issue_line json json json json json json

datatype my_issue_line = My_issue_line json json json json

datatype tool_text =
    No_issues_found
  | Issues_found nat "issue_line list"
  | Issue_key_required
  | Issue_not_found string
  | Issue_details json json json json json json json json "json option"
  | Create_fields_required
  | Issue_created json string
  | Transition_fields_required
  | Transition_done string string
  | Transition_failed string string
  | No_assigned_issues
  | My_issues nat "my_issue_line list"
  | Unknown_tool string
  | Error_text error

datatype text_content = TextContent tool_text

text \<open>\<open>v[:10]\<close>: a string and a list have slices; a dict rejects the slice as a key.\<close>

fun py_slice10 :: "json \<Rightarrow> error + json" where
  "py_slice10 (JString s) = Inr (JString (take 10 s))"
| "py_slice10 (JArray xs) = Inr (JArray (take 10 xs))"
| "py_slice10 _ = Inl TypeError"

text \<open>The loop of lines 427 to 432.\<close>

fun found_lines :: "issue_line list \<Rightarrow> JiraIssue list \<Rightarrow> error + issue_line list" where
  "found_lines result [] = Inr result"
| "found_lines result (issue # rest) =
     bindE (py_slice10 (updated issue)) (\<lambda>u.
       found_lines (result @ [Issue_line (JiraIssue.key issue) (summary issue) (status issue)
                                (assignee issue) (priority issue) u]) rest)"

text \<open>The loop of lines 528 to 530.\<close>

definition my_lines :: "JiraIssue list \<Rightarrow> my_issue_line list" where
  "my_lines issues =
     map (\<lambda>issue. My_issue_line (JiraIssue.key issue) (summary issue) (status issue)
                                 (priority issue)) issues"

text \<open>Lines 451 to 464.\<close>

definition issue_details :: "JiraIssue \<Rightarrow> error + tool_text" where
  "issue_details issue =
     bindE (py_slice10 (created issue)) (\<lambda>c.
     bindE (py_slice10 (updated issue)) (\<lambda>u.
       Inr (Issue_details (JiraIssue.key issue) (summary issue) (status issue) (assignee issue)
              (priority issue) (issue_type issue) c u
              (if truthy (description issue) then Some (description issue) else None))))"

text \<open>The body of the \<open>try\<close> statement (lines 411 to 538).\<close>

definition call_tool_try ::
  "JiraManager \<Rightarrow> backend \<Rightarrow> string \<Rightarrow> tool_arguments \<Rightarrow> (text_content list) outcome" where
  "call_tool_try jira_manager backend = (\<lambda>name arguments.
     if name = ''search_issues'' then
       (let jql = arg_jql arguments;
            assignee = arg_assignee arguments;
            project = arg_project arguments;
            max_results = get_default (arg_max_results arguments) 20
        in case search_issues jira_manager backend jql assignee project max_results of
             (Inl e, sent) \<Rightarrow> (Inl e, sent)
           | (Inr issues, sent) \<Rightarrow>
               if issues = [] then (Inr [TextContent No_issues_found], sent)
               else (bindE (found_lines [] issues) (\<lambda>ls.
                       Inr [TextContent (Issues_found (length issues) ls)]), sent))
     else if name = ''get_issue'' then
       (let issue_key = arg_issue_key arguments
        in if \<not> truthy_str issue_key then (Inr [TextContent Issue_key_required], [])
           else
             (case get_issue jira_manager backend (the issue_key) of
                (Inl e, sent) \<Rightarrow> (Inl e, sent)
              | (Inr None, sent) \<Rightarrow> (Inr [TextContent (Issue_not_found (the issue_key))], sent)
              | (Inr (Some issue), sent) \<Rightarrow>
                  (bindE (issue_details issue) (\<lambda>t. Inr [TextContent t]), sent)))
     else if name = ''create_issue'' then
       (let project_key = arg_project_key arguments;
            summary = arg_summary arguments;
            description = arg_description arguments;
            issue_type = get_default (arg_issue_type arguments) ''Task''
        in if \<not> (truthy_str project_key \<and> truthy_str summary \<and> truthy_str description)
           then (Inr [TextContent Create_fields_required], [])
           else
             (case create_issue jira_manager backend (the project_key) (the summary)
                     (the description) issue_type of
                (Inl e, sent) \<Rightarrow> (Inl e, sent)
              | (Inr result, sent) \<Rightarrow>
                  (bindE (py_get result ''key'' JNull) (\<lambda>issue_key.
                     Inr [TextContent (Issue_created issue_key (the summary))]), sent)))
     else if name = ''transition_issue'' then
       (let issue_key = arg_issue_key arguments;
            transition = arg_transition arguments
        in if \<not> (truthy_str issue_key \<and> truthy_str transition)
           then (Inr [TextContent Transition_fields_required], [])
           else
             (case transition_issue jira_manager backend (the issue_key) (the transition) of
                (Inl e, sent) \<Rightarrow> (Inl e, sent)
              | (Inr success, sent) \<Rightarrow>
                  if success
                  then (Inr [TextContent (Transition_done (the issue_key) (the transition))], sent)
                  else (Inr [TextContent (Transition_failed (the issue_key) (the transition))], sent)))
     else if name = ''get_my_issues'' then
       (let status_filter = arg_status arguments;
            jql = ''assignee = currentUser()'';
            jql = (if truthy_str status_filter
                   then jql @ '' AND status = '' @ [apostrophe] @ the status_filter @ [apostrophe]
                   else jql);
            jql = jql @ '' ORDER BY updated DESC''
        in case search_issues jira_manager backend (Some jql) None None (Some 30) of
             (Inl e, sent) \<Rightarrow> (Inl e, sent)
           | (Inr issues, sent) \<Rightarrow>
               if issues = [] then (Inr [TextContent No_assigned_issues], sent)
               else (Inr [TextContent (My_issues (length issues) (my_lines issues))], sent))
     else (Inr [TextContent (Unknown_tool name)], []))"

text \<open>The whole function: \<open>except Exception\<close> turns every exception into a text.\<close>

definition call_tool ::
  "JiraManager \<Rightarrow> backend \<Rightarrow> string \<Rightarrow> tool_arguments \<Rightarrow> (text_content list) outcome" where
  "call_tool jira_manager backend = (\<lambda>name arguments.
     case call_tool_try jira_manager backend name arguments of
       (Inl e, sent) \<Rightarrow> (Inr [TextContent (Error_text e)], sent)
     | (Inr texts, sent) \<Rightarrow> (Inr texts, sent))"

section \<open>Auxiliary facts\<close>

lemma bindE_Inr [simp]: "bindE (Inr x) f = f x"
  by (simp add: bindE_def)

lemma bindE_Inl [simp]: "bindE (Inl e) f = Inl e"
  by (simp add: bindE_def)

lemma response_json_Some [simp]: "response_json (Some document) = Inr document"
  by (simp add: response_json_def)

lemma response_json_None [simp]: "response_json None = Inl JSONDecodeError"
  by (simp add: response_json_def)

lemma int_or_None_Some [simp]: "int_or_None (Some n) = JInt n"
  by (simp add: int_or_None_def)

lemma of_char_lower_char:
  "(of_char (lower_char c) :: nat) =
     (let n = of_char c :: nat
      in if (65 \<le> n \<and> n \<le> 90) \<or> (192 \<le> n \<and> n \<le> 222 \<and> n \<noteq> 215) then n + 32 else n)"
proof -
  have "(of_char c :: nat) < 256" by simp
  then show ?thesis
    by (auto simp add: lower_char_def Let_def of_char_of take_bit_eq_mod)
qed

lemma lower_char_m: "lower_char c = CHR ''m'' \<longleftrightarrow> c = CHR ''m'' \<or> c = CHR ''M''"
proof -
  have "lower_char c = CHR ''m'' \<longleftrightarrow> (of_char (lower_char c) :: nat) = of_char (CHR ''m'')"
    by (metis of_char_eq_iff)
  also have "\<dots> \<longleftrightarrow> (of_char c :: nat) = 109 \<or> (of_char c :: nat) = 77"
    by (auto simp add: of_char_lower_char Let_def)
  also have "\<dots> \<longleftrightarrow> (of_char c :: nat) = of_char (CHR ''m'') \<or> (of_char c :: nat) = of_char (CHR ''M'')"
    by simp
  also have "\<dots> \<longleftrightarrow> c = CHR ''m'' \<or> c = CHR ''M''"
    by (simp only: of_char_eq_iff)
  finally show ?thesis .
qed

lemma lower_char_e: "lower_char c = CHR ''e'' \<longleftrightarrow> c = CHR ''e'' \<or> c = CHR ''E''"
proof -
  have "lower_char c = CHR ''e'' \<longleftrightarrow> (of_char (lower_char c) :: nat) = of_char (CHR ''e'')"
    by (metis of_char_eq_iff)
  also have "\<dots> \<longleftrightarrow> (of_char c :: nat) = 101 \<or> (of_char c :: nat) = 69"
    by (auto simp add: of_char_lower_char Let_def)
  also have "\<dots> \<longleftrightarrow> (of_char c :: nat) = of_char (CHR ''e'') \<or> (of_char c :: nat) = of_char (CHR ''E'')"
    by simp
  also have "\<dots> \<longleftrightarrow> c = CHR ''e'' \<or> c = CHR ''E''"
    by (simp only: of_char_eq_iff)
  finally show ?thesis .
qed

text \<open>The strings that \<open>lower\<close> sends to \<open>me\<close> are its four spellings.\<close>

lemma lower_me_iff: "lower a = ''me'' \<longleftrightarrow> a \<in> {''me'', ''Me'', ''mE'', ''ME''}"
proof -
  have "lower a = ''me'' \<longleftrightarrow>
          (\<exists>c d. a = [c, d] \<and> lower_char c = CHR ''m'' \<and> lower_char d = CHR ''e'')"
    by (auto simp add: lower_def map_eq_Cons_conv)
  also have "\<dots> \<longleftrightarrow> a \<in> {''me'', ''Me'', ''mE'', ''ME''}"
    by (auto simp add: lower_char_m lower_char_e)
  finally show ?thesis .
qed

lemma jql_conditions_Some:
  "a \<noteq> [] \<Longrightarrow> jql_conditions (Some a) p =
     (if lower a = ''me'' then ''assignee = currentUser()''
      else ''assignee = '' @ [apostrophe] @ a @ [apostrophe]) # jql_conditions None p"
  by (simp add: jql_conditions_def Let_def split: option.splits)

section \<open>Query construction: properties\<close>

text \<open>
  C3. The query built for the assignee \<open>me\<close> alone is \<open>assignee = currentUser()\<close>; for
  the assignee \<open>bob\<close> and the project \<open>ABC\<close> it is
  \<open>assignee = 'bob' AND project = 'ABC'\<close>; with no argument it is
  \<open>order by updated DESC\<close>; and a non-empty raw query is the result, whatever the
  assignee and the project are.
\<close>

theorem build_jql_examples:
  "build_jql None (Some ''me'') None = ''assignee = currentUser()'' \<and>
   build_jql None (Some ''bob'') (Some ''ABC'') =
     ''assignee = 'bob' AND project = 'ABC'' @ [CHR 0x27] \<and>
   build_jql None None None = ''order by updated DESC'' \<and>
   (\<forall>q a p. q \<noteq> [] \<longrightarrow> build_jql (Some q) a p = q)"
proof (intro conjI allI impI)
  show "build_jql None (Some ''me'') None = ''assignee = currentUser()''"
    by code_simp
  show "build_jql None (Some ''bob'') (Some ''ABC'') =
          ''assignee = 'bob' AND project = 'ABC'' @ [CHR 0x27]"
    by code_simp
  show "build_jql None None None = ''order by updated DESC''"
    by code_simp
  show "build_jql (Some q) a p = q" if "q \<noteq> []" for q a p
    using that by (simp add: build_jql_def)
qed

theorem build_jql_examples_witness:
  "''status = Done'' \<noteq> [] \<and>
   build_jql (Some ''status = Done'') (Some ''bob'') (Some ''ABC'') = ''status = Done''"
proof -
  have raw: "\<forall>q a p. q \<noteq> [] \<longrightarrow> build_jql (Some q) a p = q"
    using build_jql_examples by blast
  have ne: "''status = Done'' \<noteq> []" by simp
  from raw ne show ?thesis by blast
qed

text \<open>
  C4, as amended. For a non-empty assignee, the first condition is
  \<open>assignee = currentUser()\<close> when the lower-cased assignee is \<open>me\<close>, that is for the
  four spellings \<open>me\<close>, \<open>Me\<close>, \<open>mE\<close> and \<open>ME\<close>, and the quoted form
  \<open>assignee = '<value>'\<close> for every other value; the project condition follows it.
\<close>

theorem jql_conditions_assignee:
  "a \<noteq> [] \<Longrightarrow>
     jql_conditions (Some a) p =
       (if a \<in> {''me'', ''Me'', ''mE'', ''ME''} then ''assignee = currentUser()''
        else ''assignee = '' @ [apostrophe] @ a @ [apostrophe]) # jql_conditions None p
     \<and> build_jql None (Some a) None =
       (if a \<in> {''me'', ''Me'', ''mE'', ''ME''} then ''assignee = currentUser()''
        else ''assignee = '' @ [apostrophe] @ a @ [apostrophe])"
proof -
  assume ne: "a \<noteq> []"
  have me: "(lower a = ''me'') = (a \<in> {''me'', ''Me'', ''mE'', ''ME''})"
    by (rule lower_me_iff)
  have conds: "jql_conditions (Some a) p =
       (if a \<in> {''me'', ''Me'', ''mE'', ''ME''} then ''assignee = currentUser()''
        else ''assignee = '' @ [apostrophe] @ a @ [apostrophe]) # jql_conditions None p"
    using jql_conditions_Some [OF ne, of p] me by simp
  have none: "jql_conditions None None = []"
    by (simp add: jql_conditions_def)
  have "jql_conditions (Some a) None =
       [if a \<in> {''me'', ''Me'', ''mE'', ''ME''} then ''assignee = currentUser()''
        else ''assignee = '' @ [apostrophe] @ a @ [apostrophe]]"
    using jql_conditions_Some [OF ne, of None] me none by simp
  then have "build_jql None (Some a) None =
       (if a \<in> {''me'', ''Me'', ''mE'', ''ME''} then ''assignee = currentUser()''
        else ''assignee = '' @ [apostrophe] @ a @ [apostrophe])"
    by (simp add: build_jql_def)
  with conds show ?thesis by blast
qed

theorem jql_conditions_assignee_witness:
  "''bob'' \<noteq> [] \<and>
   jql_conditions (Some ''bob'') (Some ''ABC'') =
     [''assignee = 'bob'' @ [CHR 0x27], ''project = 'ABC'' @ [CHR 0x27]] \<and>
   build_jql None (Some ''bob'') None = ''assignee = 'bob'' @ [CHR 0x27]"
proof -
  have ne: "''bob'' \<noteq> []" by simp
  have p: "jql_conditions None (Some ''ABC'') = [''project = 'ABC'' @ [CHR 0x27]]"
    by (simp add: jql_conditions_def apostrophe_def)
  show ?thesis
    using jql_conditions_assignee [OF ne, of "Some ''ABC''"] p
    by (simp add: apostrophe_def)
qed

text \<open>
  The assignee \<open>ME\<close> is not empty and is not the literal \<open>me\<close>, and its condition is
  \<open>assignee = currentUser()\<close>, not the quoted form.
\<close>

theorem assignee_upper_case_counterexample:
  "''ME'' \<noteq> [] \<and> ''ME'' \<noteq> ''me'' \<and>
   jql_conditions (Some ''ME'') None = [''assignee = currentUser()''] \<and>
   jql_conditions (Some ''ME'') None \<noteq> [''assignee = 'ME'' @ [CHR 0x27]] \<and>
   build_jql None (Some ''ME'') None = ''assignee = currentUser()''"
  by code_simp

section \<open>Response normalisation: properties\<close>

lemma issue_description_empty_content:
  "map_of fs ''description'' = Some (JObject doc) \<Longrightarrow> doc \<noteq> [] \<Longrightarrow>
   map_of doc ''content'' = Some (JArray []) \<Longrightarrow>
   issue_description (JObject fs) = Inl IndexError"
  by (simp add: issue_description_def)

lemma issue_description_absent:
  "map_of fs ''description'' = None \<or> map_of fs ''description'' = Some JNull \<Longrightarrow>
   issue_description (JObject fs) = Inr (JString '''')"
  by (auto simp add: issue_description_def)

lemma issue_summary_ok:
  "\<exists>s. issue_summary (JObject fs) = Inr s \<and>
     (map_of fs ''summary'' = None \<longrightarrow> s = JString sin_titulo)"
  by (auto simp add: issue_summary_def split: option.splits)

lemma issue_status_ok:
  assumes "\<forall>v. map_of fs ''status'' = Some v \<longrightarrow> (\<exists>kvs. v = JObject kvs)"
  shows "\<exists>s. issue_status (JObject fs) = Inr s \<and>
     (map_of fs ''status'' = None \<or>
      (\<exists>kvs. map_of fs ''status'' = Some (JObject kvs) \<and> map_of kvs ''name'' = None)
        \<longrightarrow> s = JString ''Desconocido'')"
  using assms by (auto simp add: issue_status_def split: option.splits)

lemma issue_issuetype_ok:
  assumes "\<forall>v. map_of fs ''issuetype'' = Some v \<longrightarrow> (\<exists>kvs. v = JObject kvs)"
  shows "\<exists>s. issue_issuetype (JObject fs) = Inr s \<and>
     (map_of fs ''issuetype'' = None \<or>
      (\<exists>kvs. map_of fs ''issuetype'' = Some (JObject kvs) \<and> map_of kvs ''name'' = None)
        \<longrightarrow> s = JString ''Desconocido'')"
  using assms by (auto simp add: issue_issuetype_def split: option.splits)

lemma issue_assignee_ok:
  assumes "\<forall>v. map_of fs ''assignee'' = Some v \<longrightarrow> \<not> truthy v \<or> (\<exists>kvs. v = JObject kvs)"
  shows "\<exists>s. issue_assignee (JObject fs) = Inr s \<and>
     (map_of fs ''assignee'' = None \<or> map_of fs ''assignee'' = Some JNull
        \<longrightarrow> s = JString ''Sin asignar'')"
  using assms by (auto simp add: issue_assignee_def split: option.splits)

lemma issue_priority_ok:
  assumes "\<forall>v. map_of fs ''priority'' = Some v \<longrightarrow> \<not> truthy v \<or> (\<exists>kvs. v = JObject kvs)"
  shows "\<exists>s. issue_priority (JObject fs) = Inr s \<and>
     (map_of fs ''priority'' = None \<or> map_of fs ''priority'' = Some JNull
        \<longrightarrow> s = JString ''Sin prioridad'')"
  using assms by (auto simp add: issue_priority_def split: option.splits)

text \<open>
  C1. The description is a document whose top-level \<open>content\<close> list is empty. The
  default \<open>[{}]\<close> of \<open>.get("content", [{}])\<close> stands in for an absent key only, so
  \<open>[0]\<close> indexes the empty list and raises \<open>IndexError\<close>: in the extraction, in
  \<open>get_issue\<close> and in \<open>search_issues\<close>, after the one request each has sent.
\<close>

theorem empty_document_raises:
  "issue_description
     (JObject [(''summary'', JString ''Fix login''),
               (''description'', JObject [(''type'', JString ''doc''), (''version'', JInt 1),
                                           (''content'', JArray [])])])
     = Inl IndexError \<and>
   fst (get_issue self
     (\<lambda>req. Success (Some (JObject [(''key'', JString ''ABC-1''), (''fields'', JObject
        [(''summary'', JString ''Fix login''),
         (''description'', JObject [(''type'', JString ''doc''), (''version'', JInt 1),
                                     (''content'', JArray [])])])])))
     ''ABC-1'') = Inl IndexError \<and>
   fst (search_issues self
     (\<lambda>req. Success (Some (JObject [(''issues'', JArray
        [JObject [(''key'', JString ''ABC-1''), (''fields'', JObject
           [(''summary'', JString ''Fix login''),
            (''description'', JObject [(''type'', JString ''doc''), (''version'', JInt 1),
                                        (''content'', JArray [])])])]])])))
     None None None (Some 50)) = Inl IndexError"
  by (simp add: issue_description_def get_issue_def search_issues_def normalize_issue_def
      issue_summary_def issue_status_def issue_assignee_def issue_priority_def
      issue_issuetype_def Let_def)

text \<open>
  C2, as amended. The raw issue is an object with a \<open>key\<close> and with an object
  \<open>fields\<close>, in which \<open>status\<close> and \<open>issuetype\<close> are absent or objects,
  \<open>assignee\<close> and \<open>priority\<close> are absent, null (or another false value) or objects,
  and from which the description is extracted without an exception. Then normalisation
  returns an issue, in which a null or absent assignee is \<open>Sin asignar\<close>, a null or
  absent priority is \<open>Sin prioridad\<close>, an absent summary is the string \<open>sin_titulo\<close> and an
  absent status or issue type, or one without a name, is \<open>Desconocido\<close>.
\<close>

theorem normalize_issue_sentinels:
  assumes fields: "map_of issue ''fields'' = Some (JObject fs)"
    and key: "map_of issue ''key'' = Some k"
    and st: "\<forall>v. map_of fs ''status'' = Some v \<longrightarrow> (\<exists>kvs. v = JObject kvs)"
    and ty: "\<forall>v. map_of fs ''issuetype'' = Some v \<longrightarrow> (\<exists>kvs. v = JObject kvs)"
    and asg: "\<forall>v. map_of fs ''assignee'' = Some v \<longrightarrow> \<not> truthy v \<or> (\<exists>kvs. v = JObject kvs)"
    and pri: "\<forall>v. map_of fs ''priority'' = Some v \<longrightarrow> \<not> truthy v \<or> (\<exists>kvs. v = JObject kvs)"
    and descr: "issue_description (JObject fs) = Inr d"
  shows "\<exists>i. normalize_issue (JObject issue) = Inr i \<and>
     JiraIssue.key i = k \<and> description i = d \<and>
     (map_of fs ''assignee'' = None \<or> map_of fs ''assignee'' = Some JNull
        \<longrightarrow> assignee i = JString ''Sin asignar'') \<and>
     (map_of fs ''priority'' = None \<or> map_of fs ''priority'' = Some JNull
        \<longrightarrow> priority i = JString ''Sin prioridad'') \<and>
     (map_of fs ''summary'' = None \<longrightarrow> summary i = JString sin_titulo) \<and>
     (map_of fs ''status'' = None \<or>
      (\<exists>kvs. map_of fs ''status'' = Some (JObject kvs) \<and> map_of kvs ''name'' = None)
        \<longrightarrow> status i = JString ''Desconocido'') \<and>
     (map_of fs ''issuetype'' = None \<or>
      (\<exists>kvs. map_of fs ''issuetype'' = Some (JObject kvs) \<and> map_of kvs ''name'' = None)
        \<longrightarrow> issue_type i = JString ''Desconocido'')"
proof -
  obtain sm where sm: "issue_summary (JObject fs) = Inr sm"
    "map_of fs ''summary'' = None \<longrightarrow> sm = JString sin_titulo"
    using issue_summary_ok by blast
  obtain s where s: "issue_status (JObject fs) = Inr s"
    "map_of fs ''status'' = None \<or>
      (\<exists>kvs. map_of fs ''status'' = Some (JObject kvs) \<and> map_of kvs ''name'' = None)
        \<longrightarrow> s = JString ''Desconocido''"
    using issue_status_ok [OF st] by blast
  obtain t where t: "issue_issuetype (JObject fs) = Inr t"
    "map_of fs ''issuetype'' = None \<or>
      (\<exists>kvs. map_of fs ''issuetype'' = Some (JObject kvs) \<and> map_of kvs ''name'' = None)
        \<longrightarrow> t = JString ''Desconocido''"
    using issue_issuetype_ok [OF ty] by blast
  obtain a where a: "issue_assignee (JObject fs) = Inr a"
    "map_of fs ''assignee'' = None \<or> map_of fs ''assignee'' = Some JNull
        \<longrightarrow> a = JString ''Sin asignar''"
    using issue_assignee_ok [OF asg] by blast
  obtain p where p: "issue_priority (JObject fs) = Inr p"
    "map_of fs ''priority'' = None \<or> map_of fs ''priority'' = Some JNull
        \<longrightarrow> p = JString ''Sin prioridad''"
    using issue_priority_ok [OF pri] by blast
  have "normalize_issue (JObject issue) =
      Inr \<lparr>JiraIssue.key = k, summary = sm, status = s, assignee = a, priority = p,
           issue_type = t,
           created = (case map_of fs ''created'' of Some v \<Rightarrow> v | None \<Rightarrow> JString ''''),
           updated = (case map_of fs ''updated'' of Some v \<Rightarrow> v | None \<Rightarrow> JString ''''),
           description = d\<rparr>"
    by (simp add: normalize_issue_def fields key sm(1) s(1) t(1) a(1) p(1) descr)
  with sm(2) s(2) t(2) a(2) p(2) show ?thesis by simp
qed

theorem normalize_issue_sentinels_witness:
  "\<exists>i. normalize_issue
          (JObject [(''key'', JString ''ABC-1''),
                    (''fields'', JObject [(''status'', JObject [(''name'', JString ''Open'')]),
                                          (''assignee'', JNull), (''priority'', JNull),
                                          (''issuetype'', JObject [])])]) = Inr i \<and>
       JiraIssue.key i = JString ''ABC-1'' \<and>
       assignee i = JString ''Sin asignar'' \<and>
       priority i = JString ''Sin prioridad'' \<and>
       summary i = JString sin_titulo \<and>
       issue_type i = JString ''Desconocido'' \<and>
       description i = JString ''''"
proof -
  let ?fs = "[(''status'', JObject [(''name'', JString ''Open'')]),
              (''assignee'', JNull), (''priority'', JNull), (''issuetype'', JObject [])]"
  let ?issue = "[(''key'', JString ''ABC-1''), (''fields'', JObject ?fs)]"
  have d: "issue_description (JObject ?fs) = Inr (JString '''')"
    by (rule issue_description_absent) simp
  have "map_of ?issue ''fields'' = Some (JObject ?fs)"
    and "map_of ?issue ''key'' = Some (JString ''ABC-1'')"
    and "\<forall>v. map_of ?fs ''status'' = Some v \<longrightarrow> (\<exists>kvs. v = JObject kvs)"
    and "\<forall>v. map_of ?fs ''issuetype'' = Some v \<longrightarrow> (\<exists>kvs. v = JObject kvs)"
    and "\<forall>v. map_of ?fs ''assignee'' = Some v \<longrightarrow> \<not> truthy v \<or> (\<exists>kvs. v = JObject kvs)"
    and "\<forall>v. map_of ?fs ''priority'' = Some v \<longrightarrow> \<not> truthy v \<or> (\<exists>kvs. v = JObject kvs)"
    by simp_all
  from normalize_issue_sentinels [OF this d] show ?thesis
    by auto
qed

text \<open>
  A raw issue with a null assignee, a null priority and a null status raises
  \<open>AttributeError\<close>: only \<open>assignee\<close> and \<open>priority\<close> are guarded against null. And
  where normalisation returns, the values it fills in are \<open>Sin asignar\<close> and
  \<open>Sin prioridad\<close>, which are not the strings \<open>unassigned\<close> and \<open>no priority\<close>.
\<close>

theorem null_status_counterexample:
  "normalize_issue
     (JObject [(''key'', JString ''ABC-1''),
               (''fields'', JObject [(''assignee'', JNull), (''priority'', JNull),
                                     (''status'', JNull)])]) = Inl AttributeError \<and>
   normalize_issue
     (JObject [(''key'', JString ''ABC-1''),
               (''fields'', JObject [(''assignee'', JNull), (''priority'', JNull)])]) =
     Inr \<lparr>JiraIssue.key = JString ''ABC-1'', summary = JString sin_titulo,
          status = JString ''Desconocido'', assignee = JString ''Sin asignar'',
          priority = JString ''Sin prioridad'', issue_type = JString ''Desconocido'',
          created = JString '''', updated = JString '''', description = JString ''''\<rparr> \<and>
   JString ''Sin asignar'' \<noteq> JString ''unassigned'' \<and>
   JString ''Sin prioridad'' \<noteq> JString ''no priority''"
  by (simp add: normalize_issue_def issue_summary_def issue_status_def issue_assignee_def
      issue_priority_def issue_issuetype_def issue_description_def)

section \<open>Backend client: properties\<close>

lemma find_transition_no_match:
  "\<forall>t\<in>set ts. \<exists>kvs n. t = JObject kvs \<and> map_of kvs ''name'' = Some (JString n) \<and>
       lower n \<noteq> lower tn \<Longrightarrow>
   find_transition ts tn = Inr JNull"
  by (induction ts) auto

lemma find_transition_match:
  "\<forall>t\<in>set pre. \<exists>kvs n. t = JObject kvs \<and> map_of kvs ''name'' = Some (JString n) \<and>
       lower n \<noteq> lower tn \<Longrightarrow>
   map_of kvs ''name'' = Some (JString n) \<Longrightarrow> lower n = lower tn \<Longrightarrow>
   map_of kvs ''id'' = Some tid \<Longrightarrow>
   find_transition (pre @ JObject kvs # post) tn = Inr tid"
  by (induction pre) auto

lemma collect_issues_length:
  "collect_issues acc raw = Inr issues \<Longrightarrow> length issues = length acc + length raw"
proof (induction raw arbitrary: acc)
  case Nil
  then show ?case by simp
next
  case (Cons r raw)
  then show ?case
    by (cases "normalize_issue r") auto
qed

lemma search_issues_failure:
  "backend (GET (jira_url self @ ''/rest/api/3/search'')
             [(''jql'', JString (build_jql jql a p)), (''maxResults'', JInt n),
              (''fields'', JString issue_fields)]) = Failure \<Longrightarrow>
   search_issues self backend jql a p (Some n) =
     (Inl HTTPStatusError,
      [GET (jira_url self @ ''/rest/api/3/search'')
           [(''jql'', JString (build_jql jql a p)), (''maxResults'', JInt n),
            (''fields'', JString issue_fields)]])"
  by (simp add: search_issues_def Let_def)

lemma get_projects_failure:
  "backend (GET (jira_url self @ ''/rest/api/3/project'') []) = Failure \<Longrightarrow>
   get_projects self backend =
     (Inl HTTPStatusError, [GET (jira_url self @ ''/rest/api/3/project'') []])"
  by (simp add: get_projects_def Let_def)

lemma build_jql_me: "build_jql None (Some ''me'') None = ''assignee = currentUser()''"
  by code_simp

lemma build_jql_recent:
  "build_jql (Some ''order by updated DESC'') None None = ''order by updated DESC''"
  by (simp add: build_jql_def)

lemma get_issue_not_None: "get_issue self backend k \<noteq> (Inr None, sent)"
  by (auto simp add: get_issue_def Let_def bindE_def split: response.splits sum.splits)

text \<open>
  C5, as amended. The transitions of the issue have been fetched. When every
  transition has a name whose lower-cased form differs from the lower-cased requested
  name, \<open>transition_issue\<close> returns \<open>False\<close> and has sent the \<open>GET\<close> only. When the
  first transition whose lower-cased name is the lower-cased requested name has the
  identifier \<open>tid\<close>: if \<open>tid\<close> is empty (false), it returns \<open>False\<close> after the
  \<open>GET\<close> only; otherwise it posts \<open>{"transition": {"id": tid}}\<close> and returns
  \<open>True\<close> when the backend accepts the \<open>POST\<close>, and raises the HTTP failure when the
  backend rejects it.
\<close>

theorem transition_issue_outcome:
  assumes get: "backend (GET (jira_url self @ ''/rest/api/3/issue/'' @ issue_key @ ''/transitions'') [])
                  = Success (Some (JObject body))"
    and ts: "map_of body ''transitions'' = Some (JArray ts)"
  shows
    "((\<forall>t\<in>set ts. \<exists>kvs n. t = JObject kvs \<and> map_of kvs ''name'' = Some (JString n) \<and>
          lower n \<noteq> lower tn) \<longrightarrow>
      transition_issue self backend issue_key tn =
        (Inr False, [GET (jira_url self @ ''/rest/api/3/issue/'' @ issue_key @ ''/transitions'') []]))
     \<and>
     (\<forall>pre kvs post n tid.
        ts = pre @ JObject kvs # post \<and>
        (\<forall>t\<in>set pre. \<exists>kvs' n'. t = JObject kvs' \<and> map_of kvs' ''name'' = Some (JString n') \<and>
           lower n' \<noteq> lower tn) \<and>
        map_of kvs ''name'' = Some (JString n) \<and> lower n = lower tn \<and>
        map_of kvs ''id'' = Some tid \<longrightarrow>
        transition_issue self backend issue_key tn =
          (let url = jira_url self @ ''/rest/api/3/issue/'' @ issue_key @ ''/transitions'';
               post_req = POST url (JObject [(''transition'', JObject [(''id'', tid)])])
           in if \<not> truthy tid then (Inr False, [GET url []])
              else case backend post_req of
                     Failure \<Rightarrow> (Inl HTTPStatusError, [GET url [], post_req])
                   | Success _ \<Rightarrow> (Inr True, [GET url [], post_req])))"
proof (intro conjI allI impI)
  assume "\<forall>t\<in>set ts. \<exists>kvs n. t = JObject kvs \<and> map_of kvs ''name'' = Some (JString n) \<and>
          lower n \<noteq> lower tn"
  then have "find_transition ts tn = Inr JNull"
    by (rule find_transition_no_match)
  then show "transition_issue self backend issue_key tn =
        (Inr False, [GET (jira_url self @ ''/rest/api/3/issue/'' @ issue_key @ ''/transitions'') []])"
    by (simp only: transition_issue_def Let_def get) (simp add: ts)
next
  fix pre kvs post n tid
  assume h: "ts = pre @ JObject kvs # post \<and>
        (\<forall>t\<in>set pre. \<exists>kvs' n'. t = JObject kvs' \<and> map_of kvs' ''name'' = Some (JString n') \<and>
           lower n' \<noteq> lower tn) \<and>
        map_of kvs ''name'' = Some (JString n) \<and> lower n = lower tn \<and>
        map_of kvs ''id'' = Some tid"
  then have "find_transition (pre @ JObject kvs # post) tn = Inr tid"
    using find_transition_match [of pre tn kvs n tid post] by blast
  with h have f: "find_transition ts tn = Inr tid" by simp
  show "transition_issue self backend issue_key tn =
          (let url = jira_url self @ ''/rest/api/3/issue/'' @ issue_key @ ''/transitions'';
               post_req = POST url (JObject [(''transition'', JObject [(''id'', tid)])])
           in if \<not> truthy tid then (Inr False, [GET url []])
              else case backend post_req of
                     Failure \<Rightarrow> (Inl HTTPStatusError, [GET url [], post_req])
                   | Success _ \<Rightarrow> (Inr True, [GET url [], post_req]))"
    by (simp only: transition_issue_def Let_def get) (simp add: ts f)
qed

theorem transition_issue_outcome_witness:
  "transition_issue
     \<lparr>jira_url = ''https://jira.example'', email = ''dev@example.com'', api_token = ''token''\<rparr>
     (\<lambda>req. case req of
               GET url params \<Rightarrow> Success (Some (JObject [(''transitions'', JArray
                 [JObject [(''id'', JString ''11''), (''name'', JString ''To Do'')],
                  JObject [(''id'', JString ''21''), (''name'', JString ''In Progress'')]])]))
             | POST url body \<Rightarrow> Success None
             | PUT url body \<Rightarrow> Failure)
     ''ABC-1'' ''in progress'' =
   (Inr True,
    [GET ''https://jira.example/rest/api/3/issue/ABC-1/transitions'' [],
     POST ''https://jira.example/rest/api/3/issue/ABC-1/transitions''
          (JObject [(''transition'', JObject [(''id'', JString ''21'')])])]) \<and>
   transition_issue
     \<lparr>jira_url = ''https://jira.example'', email = ''dev@example.com'', api_token = ''token''\<rparr>
     (\<lambda>req. case req of
               GET url params \<Rightarrow> Success (Some (JObject [(''transitions'', JArray
                 [JObject [(''id'', JString ''11''), (''name'', JString ''To Do'')],
                  JObject [(''id'', JString ''21''), (''name'', JString ''In Progress'')]])]))
             | POST url body \<Rightarrow> Success None
             | PUT url body \<Rightarrow> Failure)
     ''ABC-1'' ''done'' =
   (Inr False, [GET ''https://jira.example/rest/api/3/issue/ABC-1/transitions'' []])"
proof -
  let ?self = "\<lparr>jira_url = ''https://jira.example'', email = ''dev@example.com'',
                 api_token = ''token''\<rparr>"
  let ?t1 = "[(''id'', JString ''11''), (''name'', JString ''To Do'')]"
  let ?t2 = "[(''id'', JString ''21''), (''name'', JString ''In Progress'')]"
  let ?ts = "[JObject ?t1, JObject ?t2]"
  let ?body = "[(''transitions'', JArray ?ts)]"
  let ?backend = "\<lambda>req. case req of
               GET url params \<Rightarrow> Success (Some (JObject ?body))
             | POST url body \<Rightarrow> Success None
             | PUT url body \<Rightarrow> Failure"
  have get: "?backend (GET (jira_url ?self @ ''/rest/api/3/issue/'' @ ''ABC-1'' @ ''/transitions'') [])
               = Success (Some (JObject ?body))"
    by simp
  have ts: "map_of ?body ''transitions'' = Some (JArray ?ts)"
    by simp
  have l1: "lower ''To Do'' = ''to do''" and l2: "lower ''In Progress'' = ''in progress''"
    and l3: "lower ''in progress'' = ''in progress''" and l4: "lower ''done'' = ''done''"
    by code_simp+
  have none: "\<forall>t\<in>set ?ts. \<exists>kvs n. t = JObject kvs \<and> map_of kvs ''name'' = Some (JString n) \<and>
          lower n \<noteq> lower ''done''"
    by (simp add: l1 l2 l4)
  have found: "?ts = [JObject ?t1] @ JObject ?t2 # [] \<and>
        (\<forall>t\<in>set [JObject ?t1]. \<exists>kvs' n'. t = JObject kvs' \<and>
           map_of kvs' ''name'' = Some (JString n') \<and> lower n' \<noteq> lower ''in progress'') \<and>
        map_of ?t2 ''name'' = Some (JString ''In Progress'') \<and>
        lower ''In Progress'' = lower ''in progress'' \<and>
        map_of ?t2 ''id'' = Some (JString ''21'')"
    by (simp add: l1 l2 l3)
  from transition_issue_outcome [of ?backend ?self "''ABC-1''" ?body ?ts "''done''", OF get ts] none
  have a: "transition_issue ?self ?backend ''ABC-1'' ''done'' =
        (Inr False, [GET (jira_url ?self @ ''/rest/api/3/issue/'' @ ''ABC-1'' @ ''/transitions'') []])"
    by blast
  from transition_issue_outcome [of ?backend ?self "''ABC-1''" ?body ?ts "''in progress''", OF get ts] found
  have b: "transition_issue ?self ?backend ''ABC-1'' ''in progress'' =
          (let url = jira_url ?self @ ''/rest/api/3/issue/'' @ ''ABC-1'' @ ''/transitions'';
               post_req = POST url (JObject [(''transition'', JObject [(''id'', JString ''21'')])])
           in if \<not> truthy (JString ''21'') then (Inr False, [GET url []])
              else case ?backend post_req of
                     Failure \<Rightarrow> (Inl HTTPStatusError, [GET url [], post_req])
                   | Success _ \<Rightarrow> (Inr True, [GET url [], post_req]))"
    by blast
  from a b show ?thesis by (simp add: Let_def)
qed

text \<open>
  The requested name \<open>in progress\<close> matches the transition \<open>In Progress\<close>. When the
  backend rejects the \<open>POST\<close>, the call raises and does not return \<open>True\<close>; when the
  matching transition has an empty identifier, the call returns \<open>False\<close> and posts
  nothing.
\<close>

theorem matched_transition_counterexample:
  "transition_issue
     \<lparr>jira_url = ''https://jira.example'', email = ''dev@example.com'', api_token = ''token''\<rparr>
     (\<lambda>req. case req of
               GET url params \<Rightarrow> Success (Some (JObject [(''transitions'', JArray
                 [JObject [(''id'', JString ''21''), (''name'', JString ''In Progress'')]])]))
             | POST url body \<Rightarrow> Failure
             | PUT url body \<Rightarrow> Failure)
     ''ABC-1'' ''in progress'' =
   (Inl HTTPStatusError,
    [GET ''https://jira.example/rest/api/3/issue/ABC-1/transitions'' [],
     POST ''https://jira.example/rest/api/3/issue/ABC-1/transitions''
          (JObject [(''transition'', JObject [(''id'', JString ''21'')])])]) \<and>
   transition_issue
     \<lparr>jira_url = ''https://jira.example'', email = ''dev@example.com'', api_token = ''token''\<rparr>
     (\<lambda>req. case req of
               GET url params \<Rightarrow> Success (Some (JObject [(''transitions'', JArray
                 [JObject [(''id'', JString ''''), (''name'', JString ''In Progress'')]])]))
             | POST url body \<Rightarrow> Success None
             | PUT url body \<Rightarrow> Failure)
     ''ABC-1'' ''in progress'' =
   (Inr False, [GET ''https://jira.example/rest/api/3/issue/ABC-1/transitions'' []])"
  by code_simp

text \<open>
  C6, as amended. \<open>search_issues\<close> sends one request, which carries \<open>max_results\<close> as
  the parameter \<open>maxResults\<close>, and does not cut the answer: when it returns, it returns
  one issue for each raw issue of the backend's response. So the list is no longer than
  \<open>max_results\<close> whenever the response holds no more than \<open>max_results\<close> issues.
\<close>

theorem search_issues_length:
  "snd (search_issues self backend jql a p (Some n)) =
     [GET (jira_url self @ ''/rest/api/3/search'')
          [(''jql'', JString (build_jql jql a p)), (''maxResults'', JInt n),
           (''fields'', JString issue_fields)]] \<and>
   (\<forall>data raw issues.
      backend (GET (jira_url self @ ''/rest/api/3/search'')
                 [(''jql'', JString (build_jql jql a p)), (''maxResults'', JInt n),
                  (''fields'', JString issue_fields)]) = Success (Some (JObject data)) \<and>
      map_of data ''issues'' = Some (JArray raw) \<and>
      fst (search_issues self backend jql a p (Some n)) = Inr issues \<longrightarrow>
      length issues = length raw \<and> (int (length raw) \<le> n \<longrightarrow> int (length issues) \<le> n))"
proof (intro conjI allI impI)
  show "snd (search_issues self backend jql a p (Some n)) =
     [GET (jira_url self @ ''/rest/api/3/search'')
          [(''jql'', JString (build_jql jql a p)), (''maxResults'', JInt n),
           (''fields'', JString issue_fields)]]"
    by (simp only: search_issues_def Let_def int_or_None_Some split: response.split) simp
next
  fix data raw issues
  assume h: "backend (GET (jira_url self @ ''/rest/api/3/search'')
                 [(''jql'', JString (build_jql jql a p)), (''maxResults'', JInt n),
                  (''fields'', JString issue_fields)]) = Success (Some (JObject data)) \<and>
      map_of data ''issues'' = Some (JArray raw) \<and>
      fst (search_issues self backend jql a p (Some n)) = Inr issues"
  then have "fst (search_issues self backend jql a p (Some n)) = collect_issues [] raw"
    by (simp only: search_issues_def Let_def int_or_None_Some) simp
  with h have "collect_issues [] raw = Inr issues" by simp
  then have len: "length issues = length raw"
    using collect_issues_length by fastforce
  then show "length issues = length raw" .
  from len show "int (length issues) \<le> n" if "int (length raw) \<le> n"
    using that by simp
qed

theorem search_issues_length_witness:
  "\<exists>issues.
     fst (search_issues
       \<lparr>jira_url = ''https://jira.example'', email = ''dev@example.com'', api_token = ''token''\<rparr>
       (\<lambda>req. Success (Some (JObject [(''issues'', JArray
          [JObject [(''key'', JString ''ABC-1''), (''fields'', JObject [])],
           JObject [(''key'', JString ''ABC-2''), (''fields'', JObject [])]])])))
       None None None (Some 50)) = Inr issues \<and>
     length issues = 2 \<and> int (length issues) \<le> 50"
proof -
  let ?self = "\<lparr>jira_url = ''https://jira.example'', email = ''dev@example.com'',
                 api_token = ''token''\<rparr>"
  let ?raw = "[JObject [(''key'', JString ''ABC-1''), (''fields'', JObject [])],
               JObject [(''key'', JString ''ABC-2''), (''fields'', JObject [])]]"
  let ?data = "[(''issues'', JArray ?raw)]"
  let ?backend = "\<lambda>req :: request. Success (Some (JObject ?data))"
  obtain issues where run: "fst (search_issues ?self ?backend None None None (Some 50)) = Inr issues"
    by (simp add: search_issues_def Let_def normalize_issue_def issue_summary_def
        issue_status_def issue_assignee_def issue_priority_def issue_issuetype_def
        issue_description_def)
  have resp: "?backend (GET (jira_url ?self @ ''/rest/api/3/search'')
                 [(''jql'', JString (build_jql None None None)), (''maxResults'', JInt 50),
                  (''fields'', JString issue_fields)]) = Success (Some (JObject ?data))"
    by simp
  have key: "map_of ?data ''issues'' = Some (JArray ?raw)"
    by simp
  have "length issues = length ?raw \<and>
        (int (length ?raw) \<le> 50 \<longrightarrow> int (length issues) \<le> 50)"
    using search_issues_length [of ?self ?backend None None None 50] resp key run by blast
  then have "length issues = 2 \<and> int (length issues) \<le> 50"
    by simp
  with run show ?thesis by blast
qed

text \<open>
  The request asks for one result, the backend answers with two issues, and the list
  returned has two issues.
\<close>

theorem two_issues_counterexample:
  "map_sum id length (fst (search_issues
     \<lparr>jira_url = ''https://jira.example'', email = ''dev@example.com'', api_token = ''token''\<rparr>
     (\<lambda>req. Success (Some (JObject [(''issues'', JArray
        [JObject [(''key'', JString ''ABC-1''), (''fields'', JObject [])],
         JObject [(''key'', JString ''ABC-2''), (''fields'', JObject [])]])])))
     None None None (Some 1))) = Inr 2 \<and>
   snd (search_issues
     \<lparr>jira_url = ''https://jira.example'', email = ''dev@example.com'', api_token = ''token''\<rparr>
     (\<lambda>req. Success (Some (JObject [(''issues'', JArray
        [JObject [(''key'', JString ''ABC-1''), (''fields'', JObject [])],
         JObject [(''key'', JString ''ABC-2''), (''fields'', JObject [])]])])))
     None None None (Some 1)) =
     [GET ''https://jira.example/rest/api/3/search''
        [(''jql'', JString ''order by updated DESC''), (''maxResults'', JInt 1),
         (''fields'', JString issue_fields)]] \<and>
   \<not> (2::int) \<le> 1"
  by code_simp

text \<open>
  C9. \<open>assign_issue\<close> sends one \<open>PUT\<close> whose body has the given assignee as
  \<open>accountId\<close>, and null when the assignee is the literal \<open>me\<close>; it sends nothing
  else, so \<open>me\<close> is not resolved to an account. When the backend answers the \<open>PUT\<close>
  with success, it returns \<open>True\<close>.
\<close>

theorem assign_issue_request:
  "snd (assign_issue self backend k a) =
     [PUT (jira_url self @ ''/rest/api/3/issue/'' @ k @ ''/assignee'')
          (JObject [(''accountId'', if a = ''me'' then JNull else JString a)])] \<and>
   (\<forall>b. backend (PUT (jira_url self @ ''/rest/api/3/issue/'' @ k @ ''/assignee'')
                     (JObject [(''accountId'', if a = ''me'' then JNull else JString a)]))
           = Success b \<longrightarrow>
        assign_issue self backend k a =
          (Inr True, [PUT (jira_url self @ ''/rest/api/3/issue/'' @ k @ ''/assignee'')
                          (JObject [(''accountId'', if a = ''me'' then JNull else JString a)])]))"
proof (intro conjI allI impI)
  show "snd (assign_issue self backend k a) =
     [PUT (jira_url self @ ''/rest/api/3/issue/'' @ k @ ''/assignee'')
          (JObject [(''accountId'', if a = ''me'' then JNull else JString a)])]"
    by (cases "a = ''me''") (simp_all only: assign_issue_def Let_def split: response.split, simp_all)
next
  fix b
  assume "backend (PUT (jira_url self @ ''/rest/api/3/issue/'' @ k @ ''/assignee'')
                     (JObject [(''accountId'', if a = ''me'' then JNull else JString a)]))
           = Success b"
  then show "assign_issue self backend k a =
          (Inr True, [PUT (jira_url self @ ''/rest/api/3/issue/'' @ k @ ''/assignee'')
                          (JObject [(''accountId'', if a = ''me'' then JNull else JString a)])])"
    by (cases "a = ''me''") (simp_all add: assign_issue_def Let_def)
qed

theorem assign_issue_request_witness:
  "assign_issue
     \<lparr>jira_url = ''https://jira.example'', email = ''dev@example.com'', api_token = ''token''\<rparr>
     (\<lambda>req. Success None) ''ABC-1'' ''me'' =
   (Inr True, [PUT ''https://jira.example/rest/api/3/issue/ABC-1/assignee''
                   (JObject [(''accountId'', JNull)])]) \<and>
   assign_issue
     \<lparr>jira_url = ''https://jira.example'', email = ''dev@example.com'', api_token = ''token''\<rparr>
     (\<lambda>req. Success None) ''ABC-1'' ''5b10ac8d82e05b22cc7d4ef5'' =
   (Inr True, [PUT ''https://jira.example/rest/api/3/issue/ABC-1/assignee''
                   (JObject [(''accountId'', JString ''5b10ac8d82e05b22cc7d4ef5'')])])"
proof -
  let ?self = "\<lparr>jira_url = ''https://jira.example'', email = ''dev@example.com'',
                 api_token = ''token''\<rparr>"
  let ?backend = "\<lambda>req :: request. Success None"
  have ok: "?backend r = Success None" for r
    by simp
  from assign_issue_request [of ?self ?backend "''ABC-1''" "''me''"] ok
  have a: "assign_issue ?self ?backend ''ABC-1'' ''me'' =
          (Inr True, [PUT (jira_url ?self @ ''/rest/api/3/issue/'' @ ''ABC-1'' @ ''/assignee'')
                          (JObject [(''accountId'', if ''me'' = ''me'' then JNull else JString ''me'')])])"
    by blast
  from assign_issue_request [of ?self ?backend "''ABC-1''" "''5b10ac8d82e05b22cc7d4ef5''"] ok
  have b: "assign_issue ?self ?backend ''ABC-1'' ''5b10ac8d82e05b22cc7d4ef5'' =
          (Inr True, [PUT (jira_url ?self @ ''/rest/api/3/issue/'' @ ''ABC-1'' @ ''/assignee'')
                          (JObject [(''accountId'',
                             if ''5b10ac8d82e05b22cc7d4ef5'' = ''me'' then JNull
                             else JString ''5b10ac8d82e05b22cc7d4ef5'')])])"
    by blast
  from a b show ?thesis by simp
qed

section \<open>Protocol dispatcher: properties\<close>

lemma read_resource_returns:
  "\<exists>text sent. read_resource exc_str jm backend uri = (Inr text, sent)"
  by (cases "read_resource_try jm backend uri")
    (auto simp add: read_resource_def split: sum.splits)

lemma read_resource_caught:
  "read_resource_try jm backend uri = (Inl e, sent) \<Longrightarrow>
   read_resource exc_str jm backend uri =
     (Inr (Json_dumps True (JObject [(''error'', JString (exc_str e))])), sent)"
  by (simp add: read_resource_def)

lemma issue_details_not_not_found: "issue_details issue \<noteq> Inr (Issue_not_found k)"
  by (auto simp add: issue_details_def bindE_def split: sum.splits)

lemma call_tool_try_never_not_found:
  "call_tool_try jm backend tool args \<noteq> (Inr [TextContent (Issue_not_found k)], sent)"
proof (cases "tool = ''search_issues''")
  case True
  then show ?thesis
    by (auto simp add: call_tool_try_def Let_def bindE_def split: prod.splits sum.splits)
next
  case n1: False
  show ?thesis
  proof (cases "tool = ''get_issue''")
    case True
    then show ?thesis
      using get_issue_not_None [of jm backend "the (arg_issue_key args)"]
        issue_details_not_not_found
      by (auto simp add: call_tool_try_def Let_def bindE_def
          split: prod.splits sum.splits option.splits)
  next
    case n2: False
    show ?thesis
    proof (cases "tool = ''create_issue''")
      case True
      then show ?thesis
        by (auto simp add: call_tool_try_def Let_def bindE_def split: prod.splits sum.splits)
    next
      case n3: False
      show ?thesis
      proof (cases "tool = ''transition_issue''")
        case True
        then show ?thesis
          by (auto simp add: call_tool_try_def Let_def bindE_def split: prod.splits sum.splits)
      next
        case n4: False
        show ?thesis
        proof (cases "tool = ''get_my_issues''")
          case True
          then show ?thesis
            by (auto simp add: call_tool_try_def Let_def bindE_def split: prod.splits sum.splits)
        next
          case n5: False
          with n1 n2 n3 n4 show ?thesis
            by (simp add: call_tool_try_def)
        qed
      qed
    qed
  qed
qed

lemma call_tool_never_not_found:
  "call_tool jm backend tool args \<noteq> (Inr [TextContent (Issue_not_found k)], sent)"
  using call_tool_try_never_not_found [of jm backend tool args k]
  by (cases "call_tool_try jm backend tool args") (auto simp add: call_tool_def split: sum.splits)

text \<open>
  C7. For a URI that is none of the three resource URIs, \<open>read_resource\<close> returns the
  dump of an object whose one field is \<open>error\<close>, with the text of the
  \<open>ValueError\<close>, and sends nothing. For every URI and every backend it returns a text
  and raises nothing: an exception of the \<open>try\<close> body becomes the dump of an object
  with the field \<open>error\<close>. So it is when the backend fails the request of one of the
  three resources.
\<close>

theorem read_resource_errors_are_data:
  "(uri \<notin> {''jira://my-issues'', ''jira://projects'', ''jira://recent-issues''} \<longrightarrow>
      read_resource exc_str jm backend uri =
        (Inr (Json_dumps True (JObject
           [(''error'', JString (exc_str (ValueError (''Recurso no encontrado: '' @ uri))))])), [])) \<and>
   (\<exists>text sent. read_resource exc_str jm backend uri = (Inr text, sent)) \<and>
   (\<forall>e sent. read_resource_try jm backend uri = (Inl e, sent) \<longrightarrow>
      read_resource exc_str jm backend uri =
        (Inr (Json_dumps True (JObject [(''error'', JString (exc_str e))])), sent)) \<and>
   (backend (GET (jira_url jm @ ''/rest/api/3/search'')
               [(''jql'', JString ''assignee = currentUser()''), (''maxResults'', JInt 20),
                (''fields'', JString issue_fields)]) = Failure \<longrightarrow>
      fst (read_resource exc_str jm backend ''jira://my-issues'') =
        Inr (Json_dumps True (JObject [(''error'', JString (exc_str HTTPStatusError))]))) \<and>
   (backend (GET (jira_url jm @ ''/rest/api/3/project'') []) = Failure \<longrightarrow>
      fst (read_resource exc_str jm backend ''jira://projects'') =
        Inr (Json_dumps True (JObject [(''error'', JString (exc_str HTTPStatusError))]))) \<and>
   (backend (GET (jira_url jm @ ''/rest/api/3/search'')
               [(''jql'', JString ''order by updated DESC''), (''maxResults'', JInt 20),
                (''fields'', JString issue_fields)]) = Failure \<longrightarrow>
      fst (read_resource exc_str jm backend ''jira://recent-issues'') =
        Inr (Json_dumps True (JObject [(''error'', JString (exc_str HTTPStatusError))])))"
proof (intro conjI allI impI)
  show "read_resource exc_str jm backend uri =
        (Inr (Json_dumps True (JObject
           [(''error'', JString (exc_str (ValueError (''Recurso no encontrado: '' @ uri))))])), [])"
    if "uri \<notin> {''jira://my-issues'', ''jira://projects'', ''jira://recent-issues''}"
    using that by (simp add: read_resource_def read_resource_try_def)
  show "\<exists>text sent. read_resource exc_str jm backend uri = (Inr text, sent)"
    by (rule read_resource_returns)
  show "read_resource exc_str jm backend uri =
        (Inr (Json_dumps True (JObject [(''error'', JString (exc_str e))])), sent)"
    if "read_resource_try jm backend uri = (Inl e, sent)" for e sent
    using that by (rule read_resource_caught)
  show "fst (read_resource exc_str jm backend ''jira://my-issues'') =
        Inr (Json_dumps True (JObject [(''error'', JString (exc_str HTTPStatusError))]))"
    if "backend (GET (jira_url jm @ ''/rest/api/3/search'')
               [(''jql'', JString ''assignee = currentUser()''), (''maxResults'', JInt 20),
                (''fields'', JString issue_fields)]) = Failure"
  proof -
    from that have "search_issues jm backend None (Some ''me'') None (Some 20) =
       (Inl HTTPStatusError,
        [GET (jira_url jm @ ''/rest/api/3/search'')
           [(''jql'', JString (build_jql None (Some ''me'') None)), (''maxResults'', JInt 20),
            (''fields'', JString issue_fields)]])"
      by (intro search_issues_failure) (simp only: build_jql_me)
    then show ?thesis
      by (simp add: read_resource_def read_resource_try_def)
  qed
  show "fst (read_resource exc_str jm backend ''jira://projects'') =
        Inr (Json_dumps True (JObject [(''error'', JString (exc_str HTTPStatusError))]))"
    if "backend (GET (jira_url jm @ ''/rest/api/3/project'') []) = Failure"
    using get_projects_failure [of backend jm, OF that]
    by (simp add: read_resource_def read_resource_try_def)
  show "fst (read_resource exc_str jm backend ''jira://recent-issues'') =
        Inr (Json_dumps True (JObject [(''error'', JString (exc_str HTTPStatusError))]))"
    if "backend (GET (jira_url jm @ ''/rest/api/3/search'')
               [(''jql'', JString ''order by updated DESC''), (''maxResults'', JInt 20),
                (''fields'', JString issue_fields)]) = Failure"
  proof -
    from that have "search_issues jm backend (Some ''order by updated DESC'') None None (Some 20) =
       (Inl HTTPStatusError,
        [GET (jira_url jm @ ''/rest/api/3/search'')
           [(''jql'', JString (build_jql (Some ''order by updated DESC'') None None)),
            (''maxResults'', JInt 20), (''fields'', JString issue_fields)]])"
      by (intro search_issues_failure) (simp only: build_jql_recent)
    then show ?thesis
      by (simp add: read_resource_def read_resource_try_def)
  qed
qed

theorem read_resource_errors_are_data_witness:
  "read_resource (\<lambda>e. case e of ValueError m \<Rightarrow> m | _ \<Rightarrow> ''HTTP error'')
     \<lparr>jira_url = ''https://jira.example'', email = ''dev@example.com'', api_token = ''token''\<rparr>
     (\<lambda>req. Failure) ''jira://sprints'' =
   (Inr (Json_dumps True
      (JObject [(''error'', JString ''Recurso no encontrado: jira://sprints'')])), []) \<and>
   fst (read_resource (\<lambda>e. case e of ValueError m \<Rightarrow> m | _ \<Rightarrow> ''HTTP error'')
     \<lparr>jira_url = ''https://jira.example'', email = ''dev@example.com'', api_token = ''token''\<rparr>
     (\<lambda>req. Failure) ''jira://projects'') =
   Inr (Json_dumps True (JObject [(''error'', JString ''HTTP error'')]))"
proof -
  let ?str = "\<lambda>e. case e of ValueError m \<Rightarrow> m | _ \<Rightarrow> ''HTTP error''"
  let ?jm = "\<lparr>jira_url = ''https://jira.example'', email = ''dev@example.com'',
               api_token = ''token''\<rparr>"
  let ?backend = "\<lambda>req :: request. Failure"
  have unknown: "''jira://sprints'' \<notin>
      {''jira://my-issues'', ''jira://projects'', ''jira://recent-issues''}"
    by simp
  have fails: "?backend (GET (jira_url ?jm @ ''/rest/api/3/project'') []) = Failure"
    by simp
  from read_resource_errors_are_data
         [where uri = "''jira://sprints''" and exc_str = ?str and jm = ?jm and backend = ?backend]
       unknown
  have a: "read_resource ?str ?jm ?backend ''jira://sprints'' =
        (Inr (Json_dumps True (JObject
           [(''error'', JString (?str (ValueError (''Recurso no encontrado: '' @ ''jira://sprints''))))])), [])"
    by blast
  from read_resource_errors_are_data
         [where uri = "''jira://projects''" and exc_str = ?str and jm = ?jm and backend = ?backend]
       fails
  have b: "fst (read_resource ?str ?jm ?backend ''jira://projects'') =
        Inr (Json_dumps True (JObject [(''error'', JString (?str HTTPStatusError))]))"
    by blast
  from a b show ?thesis by simp
qed

text \<open>
  C8. When \<open>project_key\<close>, \<open>summary\<close> or \<open>description\<close> is missing, the tool
  \<open>create_issue\<close> returns the text that names the three required arguments and has
  sent no request. So do \<open>get_issue\<close> without \<open>issue_key\<close> and \<open>transition_issue\<close>
  without \<open>issue_key\<close> or without \<open>transition\<close>, each with its own text.
\<close>

theorem call_tool_validation:
  "(arg_project_key args = None \<or> arg_summary args = None \<or> arg_description args = None \<longrightarrow>
      call_tool jm backend ''create_issue'' args = (Inr [TextContent Create_fields_required], [])) \<and>
   (arg_issue_key args = None \<longrightarrow>
      call_tool jm backend ''get_issue'' args = (Inr [TextContent Issue_key_required], [])) \<and>
   (arg_issue_key args = None \<or> arg_transition args = None \<longrightarrow>
      call_tool jm backend ''transition_issue'' args =
        (Inr [TextContent Transition_fields_required], []))"
  by (auto simp add: call_tool_def call_tool_try_def Let_def)

theorem call_tool_validation_witness:
  "call_tool
     \<lparr>jira_url = ''https://jira.example'', email = ''dev@example.com'', api_token = ''token''\<rparr>
     (\<lambda>req. Success (Some (JObject [(''key'', JString ''ABC-7'')])))
     ''create_issue''
     \<lparr>arg_jql = None, arg_assignee = None, arg_project = None, arg_max_results = Absent,
      arg_issue_key = None, arg_project_key = Some ''ABC'', arg_summary = Some ''Fix login'',
      arg_description = None, arg_issue_type = Absent, arg_transition = None,
      arg_status = None\<rparr> =
   (Inr [TextContent Create_fields_required], []) \<and>
   call_tool
     \<lparr>jira_url = ''https://jira.example'', email = ''dev@example.com'', api_token = ''token''\<rparr>
     (\<lambda>req. Success (Some (JObject [(''key'', JString ''ABC-7'')])))
     ''get_issue''
     \<lparr>arg_jql = None, arg_assignee = None, arg_project = None, arg_max_results = Absent,
      arg_issue_key = None, arg_project_key = Some ''ABC'', arg_summary = Some ''Fix login'',
      arg_description = None, arg_issue_type = Absent, arg_transition = None,
      arg_status = None\<rparr> =
   (Inr [TextContent Issue_key_required], []) \<and>
   call_tool
     \<lparr>jira_url = ''https://jira.example'', email = ''dev@example.com'', api_token = ''token''\<rparr>
     (\<lambda>req. Success (Some (JObject [(''key'', JString ''ABC-7'')])))
     ''transition_issue''
     \<lparr>arg_jql = None, arg_assignee = None, arg_project = None, arg_max_results = Absent,
      arg_issue_key = None, arg_project_key = Some ''ABC'', arg_summary = Some ''Fix login'',
      arg_description = None, arg_issue_type = Absent, arg_transition = None,
      arg_status = None\<rparr> =
   (Inr [TextContent Transition_fields_required], [])"
proof -
  let ?jm = "\<lparr>jira_url = ''https://jira.example'', email = ''dev@example.com'',
               api_token = ''token''\<rparr>"
  let ?backend = "\<lambda>req :: request. Success (Some (JObject [(''key'', JString ''ABC-7'')]))"
  let ?args = "\<lparr>arg_jql = None, arg_assignee = None, arg_project = None,
      arg_max_results = Absent, arg_issue_key = None, arg_project_key = Some ''ABC'',
      arg_summary = Some ''Fix login'', arg_description = None, arg_issue_type = Absent,
      arg_transition = None, arg_status = None\<rparr>"
  have d: "arg_description ?args = None" and k: "arg_issue_key ?args = None"
    by simp_all
  from call_tool_validation [of ?args ?jm ?backend] d k show ?thesis
    by blast
qed

text \<open>The exceptions of normalisation.\<close>

lemma py_get_error: "py_get v k d = Inl e \<Longrightarrow> e = AttributeError"
  by (cases v) auto

lemma py_getitem_error: "py_getitem v k = Inl e \<Longrightarrow> e = KeyError \<or> e = TypeError"
  by (cases v) (auto split: option.splits)

lemma py_first_error:
  "py_first v = Inl e \<Longrightarrow> e = IndexError \<or> e = KeyError \<or> e = TypeError"
  by (cases v rule: py_first.cases) auto

lemma issue_summary_error: "issue_summary f = Inl e \<Longrightarrow> e = AttributeError"
  by (auto simp add: issue_summary_def dest: py_get_error)

lemma issue_status_error: "issue_status f = Inl e \<Longrightarrow> e = AttributeError"
  by (auto simp add: issue_status_def bindE_def split: sum.splits dest: py_get_error)

lemma issue_issuetype_error: "issue_issuetype f = Inl e \<Longrightarrow> e = AttributeError"
  by (auto simp add: issue_issuetype_def bindE_def split: sum.splits dest: py_get_error)

lemma issue_assignee_error: "issue_assignee f = Inl e \<Longrightarrow> e = AttributeError"
  by (auto simp add: issue_assignee_def bindE_def split: sum.splits if_splits dest: py_get_error)

lemma issue_priority_error: "issue_priority f = Inl e \<Longrightarrow> e = AttributeError"
  by (auto simp add: issue_priority_def bindE_def split: sum.splits if_splits dest: py_get_error)

lemma issue_description_error:
  "issue_description f = Inl e \<Longrightarrow>
   e = AttributeError \<or> e = IndexError \<or> e = KeyError \<or> e = TypeError"
  by (auto simp add: issue_description_def bindE_def split: sum.splits if_splits
      dest: py_get_error py_first_error)

lemma normalize_issue_error:
  "normalize_issue issue = Inl e \<Longrightarrow> e \<in> {KeyError, TypeError, AttributeError, IndexError}"
  by (auto simp add: normalize_issue_def bindE_def split: sum.splits
      dest: py_get_error py_getitem_error issue_summary_error issue_status_error
        issue_issuetype_error issue_assignee_error issue_priority_error issue_description_error)

text \<open>
  C10, as amended. \<open>get_issue\<close> never returns \<open>None\<close>. When the backend answers with
  a non-success status it raises the HTTP failure. When the backend answers with a
  success status, it raises the decoding exception of \<open>response.json()\<close> if the body is
  not JSON; otherwise it returns the issue that normalisation makes of the document, or
  raises the exception that normalisation raises on it, which is a \<open>KeyError\<close>, a
  \<open>TypeError\<close>, an \<open>AttributeError\<close> or an \<open>IndexError\<close>. So no call of a tool
  returns the text of the branch \<open>if not issue\<close>.
\<close>

theorem get_issue_never_none:
  "fst (get_issue self backend k) \<noteq> Inr None \<and>
   (backend (GET (jira_url self @ ''/rest/api/3/issue/'' @ k) [(''fields'', JString issue_fields)])
      = Failure \<longrightarrow>
    get_issue self backend k =
      (Inl HTTPStatusError,
       [GET (jira_url self @ ''/rest/api/3/issue/'' @ k) [(''fields'', JString issue_fields)]])) \<and>
   (backend (GET (jira_url self @ ''/rest/api/3/issue/'' @ k) [(''fields'', JString issue_fields)])
      = Success None \<longrightarrow>
    get_issue self backend k =
      (Inl JSONDecodeError,
       [GET (jira_url self @ ''/rest/api/3/issue/'' @ k) [(''fields'', JString issue_fields)]])) \<and>
   (\<forall>body i.
      backend (GET (jira_url self @ ''/rest/api/3/issue/'' @ k) [(''fields'', JString issue_fields)])
        = Success (Some body) \<and> normalize_issue body = Inr i \<longrightarrow>
      get_issue self backend k =
        (Inr (Some i),
         [GET (jira_url self @ ''/rest/api/3/issue/'' @ k) [(''fields'', JString issue_fields)]])) \<and>
   (\<forall>body e.
      backend (GET (jira_url self @ ''/rest/api/3/issue/'' @ k) [(''fields'', JString issue_fields)])
        = Success (Some body) \<and> normalize_issue body = Inl e \<longrightarrow>
      get_issue self backend k =
        (Inl e,
         [GET (jira_url self @ ''/rest/api/3/issue/'' @ k) [(''fields'', JString issue_fields)]]) \<and>
      e \<in> {KeyError, TypeError, AttributeError, IndexError}) \<and>
   (\<forall>tool args k' sent.
      call_tool self backend tool args \<noteq> (Inr [TextContent (Issue_not_found k')], sent))"
proof (intro conjI allI impI)
  show "fst (get_issue self backend k) \<noteq> Inr None"
    using get_issue_not_None [of self backend k "snd (get_issue self backend k)"]
    by (cases "get_issue self backend k") auto
  show "get_issue self backend k =
      (Inl HTTPStatusError,
       [GET (jira_url self @ ''/rest/api/3/issue/'' @ k) [(''fields'', JString issue_fields)]])"
    if "backend (GET (jira_url self @ ''/rest/api/3/issue/'' @ k)
          [(''fields'', JString issue_fields)]) = Failure"
    using that by (simp add: get_issue_def Let_def)
  show "get_issue self backend k =
      (Inl JSONDecodeError,
       [GET (jira_url self @ ''/rest/api/3/issue/'' @ k) [(''fields'', JString issue_fields)]])"
    if "backend (GET (jira_url self @ ''/rest/api/3/issue/'' @ k)
          [(''fields'', JString issue_fields)]) = Success None"
    using that by (simp add: get_issue_def Let_def)
  show "get_issue self backend k =
        (Inr (Some i),
         [GET (jira_url self @ ''/rest/api/3/issue/'' @ k) [(''fields'', JString issue_fields)]])"
    if "backend (GET (jira_url self @ ''/rest/api/3/issue/'' @ k)
          [(''fields'', JString issue_fields)]) = Success (Some body) \<and>
        normalize_issue body = Inr i"
    for body i
    using that by (simp add: get_issue_def Let_def)
  show "get_issue self backend k =
        (Inl e,
         [GET (jira_url self @ ''/rest/api/3/issue/'' @ k) [(''fields'', JString issue_fields)]])"
    if "backend (GET (jira_url self @ ''/rest/api/3/issue/'' @ k)
          [(''fields'', JString issue_fields)]) = Success (Some body) \<and>
        normalize_issue body = Inl e"
    for body e
    using that by (simp add: get_issue_def Let_def)
  show "e \<in> {KeyError, TypeError, AttributeError, IndexError}"
    if "backend (GET (jira_url self @ ''/rest/api/3/issue/'' @ k)
          [(''fields'', JString issue_fields)]) = Success (Some body) \<and>
        normalize_issue body = Inl e"
    for body e
    using that normalize_issue_error [of body e] by blast
  show "call_tool self backend tool args \<noteq> (Inr [TextContent (Issue_not_found k')], sent)"
    for tool args k' sent
    by (rule call_tool_never_not_found)
qed

theorem get_issue_never_none_witness:
  "get_issue
     \<lparr>jira_url = ''https://jira.example'', email = ''dev@example.com'', api_token = ''token''\<rparr>
     (\<lambda>req. Success (Some (JObject [(''key'', JString ''ABC-1''), (''fields'', JObject [])])))
     ''ABC-1'' =
   (Inr (Some \<lparr>JiraIssue.key = JString ''ABC-1'', summary = JString sin_titulo,
               status = JString ''Desconocido'', assignee = JString ''Sin asignar'',
               priority = JString ''Sin prioridad'', issue_type = JString ''Desconocido'',
               created = JString '''', updated = JString '''', description = JString ''''\<rparr>),
    [GET ''https://jira.example/rest/api/3/issue/ABC-1'' [(''fields'', JString issue_fields)]]) \<and>
   get_issue
     \<lparr>jira_url = ''https://jira.example'', email = ''dev@example.com'', api_token = ''token''\<rparr>
     (\<lambda>req. Failure) ''ABC-404'' =
   (Inl HTTPStatusError,
    [GET ''https://jira.example/rest/api/3/issue/ABC-404'' [(''fields'', JString issue_fields)]]) \<and>
   get_issue
     \<lparr>jira_url = ''https://jira.example'', email = ''dev@example.com'', api_token = ''token''\<rparr>
     (\<lambda>req. Success None) ''ABC-1'' =
   (Inl JSONDecodeError,
    [GET ''https://jira.example/rest/api/3/issue/ABC-1'' [(''fields'', JString issue_fields)]]) \<and>
   get_issue
     \<lparr>jira_url = ''https://jira.example'', email = ''dev@example.com'', api_token = ''token''\<rparr>
     (\<lambda>req. Success (Some (JObject [(''key'', JString ''ABC-1'')]))) ''ABC-1'' =
   (Inl KeyError,
    [GET ''https://jira.example/rest/api/3/issue/ABC-1'' [(''fields'', JString issue_fields)]])"
proof -
  let ?self = "\<lparr>jira_url = ''https://jira.example'', email = ''dev@example.com'',
                 api_token = ''token''\<rparr>"
  let ?body = "JObject [(''key'', JString ''ABC-1''), (''fields'', JObject [])]"
  let ?bad = "JObject [(''key'', JString ''ABC-1'')]"
  let ?i = "\<lparr>JiraIssue.key = JString ''ABC-1'', summary = JString sin_titulo,
               status = JString ''Desconocido'', assignee = JString ''Sin asignar'',
               priority = JString ''Sin prioridad'', issue_type = JString ''Desconocido'',
               created = JString '''', updated = JString '''', description = JString ''''\<rparr>"
  have n: "normalize_issue ?body = Inr ?i"
    by (simp add: normalize_issue_def issue_summary_def issue_status_def issue_assignee_def
        issue_priority_def issue_issuetype_def issue_description_def)
  have m: "normalize_issue ?bad = Inl KeyError"
    by (simp add: normalize_issue_def)
  have ok: "(\<lambda>req :: request. Success (Some ?body))
      (GET (jira_url ?self @ ''/rest/api/3/issue/'' @ ''ABC-1'')
         [(''fields'', JString issue_fields)]) = Success (Some ?body)"
    by simp
  have bad: "(\<lambda>req :: request. Success (Some ?bad))
      (GET (jira_url ?self @ ''/rest/api/3/issue/'' @ ''ABC-1'')
         [(''fields'', JString issue_fields)]) = Success (Some ?bad)"
    by simp
  have html: "(\<lambda>req :: request. Success None)
      (GET (jira_url ?self @ ''/rest/api/3/issue/'' @ ''ABC-1'')
         [(''fields'', JString issue_fields)]) = Success None"
    by simp
  have ko: "(\<lambda>req :: request. Failure)
      (GET (jira_url ?self @ ''/rest/api/3/issue/'' @ ''ABC-404'')
         [(''fields'', JString issue_fields)]) = Failure"
    by simp
  from get_issue_never_none [of ?self "\<lambda>req. Success (Some ?body)" "''ABC-1''"] ok n
  have a: "get_issue ?self (\<lambda>req. Success (Some ?body)) ''ABC-1'' =
      (Inr (Some ?i),
       [GET (jira_url ?self @ ''/rest/api/3/issue/'' @ ''ABC-1'')
          [(''fields'', JString issue_fields)]])"
    by blast
  from get_issue_never_none [of ?self "\<lambda>req. Failure" "''ABC-404''"] ko
  have b: "get_issue ?self (\<lambda>req. Failure) ''ABC-404'' =
      (Inl HTTPStatusError,
       [GET (jira_url ?self @ ''/rest/api/3/issue/'' @ ''ABC-404'')
          [(''fields'', JString issue_fields)]])"
    by blast
  from get_issue_never_none [of ?self "\<lambda>req. Success None" "''ABC-1''"] html
  have c: "get_issue ?self (\<lambda>req. Success None) ''ABC-1'' =
      (Inl JSONDecodeError,
       [GET (jira_url ?self @ ''/rest/api/3/issue/'' @ ''ABC-1'')
          [(''fields'', JString issue_fields)]])"
    by blast
  from get_issue_never_none [of ?self "\<lambda>req. Success (Some ?bad)" "''ABC-1''"] bad m
  have d: "get_issue ?self (\<lambda>req. Success (Some ?bad)) ''ABC-1'' =
      (Inl KeyError,
       [GET (jira_url ?self @ ''/rest/api/3/issue/'' @ ''ABC-1'')
          [(''fields'', JString issue_fields)]])"
    by blast
  from a b c d show ?thesis by simp
qed

text \<open>
  The backend answers with a success status and \<open>get_issue\<close> returns no issue: it
  raises the decoding exception on a body that is not JSON, \<open>IndexError\<close> on a
  description whose \<open>content\<close> is empty, and \<open>KeyError\<close> on a document without
  \<open>fields\<close>.
\<close>

theorem success_without_issue_counterexample:
  "get_issue
     \<lparr>jira_url = ''https://jira.example'', email = ''dev@example.com'', api_token = ''token''\<rparr>
     (\<lambda>req. Success None)
     ''ABC-1'' =
   (Inl JSONDecodeError,
    [GET ''https://jira.example/rest/api/3/issue/ABC-1'' [(''fields'', JString issue_fields)]]) \<and>
   get_issue
     \<lparr>jira_url = ''https://jira.example'', email = ''dev@example.com'', api_token = ''token''\<rparr>
     (\<lambda>req. Success (Some (JObject [(''key'', JString ''ABC-1''), (''fields'', JObject
        [(''summary'', JString ''Fix login''),
         (''description'', JObject [(''type'', JString ''doc''), (''version'', JInt 1),
                                     (''content'', JArray [])])])])))
     ''ABC-1'' =
   (Inl IndexError,
    [GET ''https://jira.example/rest/api/3/issue/ABC-1'' [(''fields'', JString issue_fields)]]) \<and>
   get_issue
     \<lparr>jira_url = ''https://jira.example'', email = ''dev@example.com'', api_token = ''token''\<rparr>
     (\<lambda>req. Success (Some (JObject [(''key'', JString ''ABC-1'')])))
     ''ABC-1'' =
   (Inl KeyError,
    [GET ''https://jira.example/rest/api/3/issue/ABC-1'' [(''fields'', JString issue_fields)]])"
  by code_simp

end
